theory Spec2Isabelle
  imports Main "HOL-Library.Word"
begin

section \<open>Common C and ESP-IDF notions\<close>

text \<open>
  The result codes of \<^verbatim>\<open>esp_err_t\<close> that the two modules return or test.
  \<^verbatim>\<open>ESP_ERR_OTHER\<close> stands for every code the sources do not name.
\<close>

datatype esp_err =
    ESP_OK
  | ESP_FAIL
  | ESP_ERR_NO_MEM
  | ESP_ERR_INVALID_ARG
  | ESP_ERR_INVALID_STATE
  | ESP_ERR_INVALID_RESPONSE
  | ESP_ERR_TIMEOUT
  | ESP_ERR_OTA_VALIDATE_FAILED
  | ESP_ERR_OTHER

text \<open>
  Behaviour that the C standard leaves undefined and that the sources can reach.
\<close>

datatype undefined_behaviour = Division_by_zero | Signed_overflow | Use_after_free

text \<open>
  A C string is a list of bytes; the terminating NUL is not part of the list, and a read
  at the end of the list yields that terminator.
\<close>

definition NUL :: char where
  "NUL = CHR 0x00"

fun c_head :: "string \<Rightarrow> char" where
  "c_head [] = NUL"
| "c_head (c # cs) = c"

text \<open>\<^verbatim>\<open>strncmp(a, b, n) == 0\<close>: at most \<open>n\<close> bytes are compared, and nothing after a NUL.\<close>

fun strncmp_eq :: "string \<Rightarrow> string \<Rightarrow> nat \<Rightarrow> bool" where
  "strncmp_eq a b 0 = True"
| "strncmp_eq a b (Suc n) =
     (if c_head a \<noteq> c_head b then False
      else if c_head a = NUL then True
      else strncmp_eq (tl a) (tl b) n)"

text \<open>
  \<^verbatim>\<open>strncpy(dst, src, n); dst[n] = '\0'\<close> read back as a C string: the bytes of \<open>src\<close>
  up to its first NUL, at most \<open>n\<close> of them.
\<close>

definition strncpy_str :: "string \<Rightarrow> nat \<Rightarrow> string" where
  "strncpy_str src n = takeWhile (\<lambda>c. c \<noteq> NUL) (take n src)"

text \<open>\<^verbatim>\<open>memcmp(a, b, n) == 0\<close> on two buffers of at least \<open>n\<close> bytes.\<close>

definition memcmp_eq :: "string \<Rightarrow> string \<Rightarrow> nat \<Rightarrow> bool" where
  "memcmp_eq a b n = (take n a = take n b)"

definition INT_MAX :: int where
  "INT_MAX = 2147483647"

text \<open>
  The conversion of an \<^verbatim>\<open>int64_t\<close> to \<^verbatim>\<open>int\<close> as the target's compiler does it: the
  low 32 bits, read as two's complement.
\<close>

definition int_of_int64 :: "int \<Rightarrow> int" where
  "int_of_int64 x = (x + 2147483648) mod 4294967296 - 2147483648"

text \<open>Division of C \<^verbatim>\<open>int\<close>s truncates towards zero.\<close>

definition c_div :: "int \<Rightarrow> int \<Rightarrow> int" where
  "c_div a b = sgn a * sgn b * (\<bar>a\<bar> div \<bar>b\<bar>)"

definition c_mod :: "int \<Rightarrow> int \<Rightarrow> int" where
  "c_mod a b = a - b * c_div a b"

section \<open>Command parsing (command\_handler.c)\<close>

datatype command_type =
    CMD_WATER
  | CMD_GET_STATUS
  | CMD_GET_READING
  | CMD_OTA_UPDATE
  | CMD_OTA_STATUS
  | CMD_OTA_CANCEL
  | CMD_UNKNOWN

text \<open>The UTF-8 bytes of the localized watering literal in the source file.\<close>

definition WATER_ZH :: string where
  "WATER_ZH = [CHR 0xE6, CHR 0xBE, CHR 0x86, CHR 0xE6, CHR 0xB0, CHR 0xB4]"

text \<open>
  \<^verbatim>\<open>parse_command(command_str, cmd_len)\<close>. \<open>None\<close> is the null pointer. The transport
  passes a buffer that is not NUL-terminated together with its length.
\<close>

definition parse_command :: "string option \<Rightarrow> int \<Rightarrow> command_type" where
  "parse_command command_str cmd_len =
     (case command_str of
        None \<Rightarrow> CMD_UNKNOWN
      | Some s \<Rightarrow>
          if cmd_len \<le> 0 then CMD_UNKNOWN
          else if strncmp_eq s WATER_ZH (nat cmd_len) \<or> strncmp_eq s ''WATER'' (nat cmd_len)
            then CMD_WATER
          else if strncmp_eq s ''GET_STATUS'' (nat cmd_len) then CMD_GET_STATUS
          else if strncmp_eq s ''GET_READING'' (nat cmd_len) then CMD_GET_READING
          else if strncmp_eq s ''OTA_UPDATE'' (nat cmd_len) then CMD_OTA_UPDATE
          else if strncmp_eq s ''OTA_STATUS'' (nat cmd_len) then CMD_OTA_STATUS
          else if strncmp_eq s ''OTA_CANCEL'' (nat cmd_len) then CMD_OTA_CANCEL
          else CMD_UNKNOWN)"

section \<open>The update engine (ota\_update.c)\<close>

subsection \<open>Types of ota\_update.h\<close>

datatype ota_state =
    OTA_STATE_IDLE
  | OTA_STATE_DOWNLOADING
  | OTA_STATE_VERIFYING
  | OTA_STATE_INSTALLING
  | OTA_STATE_SUCCESS
  | OTA_STATE_ERROR

datatype ota_result =
    OTA_RESULT_SUCCESS
  | OTA_RESULT_URL_ERROR
  | OTA_RESULT_DOWNLOAD_ERROR
  | OTA_RESULT_VERIFY_ERROR
  | OTA_RESULT_INSTALL_ERROR
  | OTA_RESULT_MEMORY_ERROR
  | OTA_RESULT_NETWORK_ERROR

record ota_config =
  firmware_url :: string
  version :: string
  auto_reboot :: bool
  timeout_ms :: "32 word"

record ota_statistics =
  total_updates :: "32 word"
  successful_updates :: "32 word"
  failed_updates :: "32 word"
  last_update_time :: "32 word"
  last_version :: string
  last_result :: ota_result

subsection \<open>Module state\<close>

text \<open>
  The file-level variables of ota\_update.c, with the static \<^verbatim>\<open>local_config\<close> of
  \<^verbatim>\<open>ota_start_update\<close>. \<open>ota_task_handle\<close> holds whether the handle is non-null.
  Three further fields record effects for the properties below and are never read by the
  program: \<open>state_trace\<close> lists every value stored in \<^verbatim>\<open>current_state\<close>, in order;
  \<open>tasks_created\<close> counts the successful \<^verbatim>\<open>xTaskCreate\<close> calls; \<open>flash_writes\<close>
  lists the byte ranges handed to \<^verbatim>\<open>esp_ota_write\<close>, in order.
  The progress callback pointer and the MQTT status messages act on collaborators only and
  are left out.
\<close>

record ota_module =
  current_state :: ota_state
  current_progress :: int
  ota_task_handle :: bool
  ota_stats :: ota_statistics
  cancel_requested :: bool
  local_config :: ota_config
  state_trace :: "ota_state list"
  tasks_created :: nat
  flash_writes :: "string list"

definition zero_config :: ota_config where
  "zero_config = \<lparr>firmware_url = [], version = [], auto_reboot = False, timeout_ms = 0\<rparr>"

definition zero_statistics :: ota_statistics where
  "zero_statistics =
     \<lparr>total_updates = 0, successful_updates = 0, failed_updates = 0, last_update_time = 0,
      last_version = [], last_result = OTA_RESULT_SUCCESS\<rparr>"

text \<open>The static initializers, as they are after a device (re)start.\<close>

definition ota_boot :: ota_module where
  "ota_boot =
     \<lparr>current_state = OTA_STATE_IDLE, current_progress = 0, ota_task_handle = False,
      ota_stats = zero_statistics, cancel_requested = False, local_config = zero_config,
      state_trace = [OTA_STATE_IDLE], tasks_created = 0, flash_writes = []\<rparr>"

text \<open>An assignment to \<^verbatim>\<open>current_state\<close>.\<close>

definition set_current_state :: "ota_state \<Rightarrow> ota_module \<Rightarrow> ota_module" where
  "set_current_state s m = m\<lparr>current_state := s, state_trace := state_trace m @ [s]\<rparr>"

text \<open>
  The three statements every failure path of the worker executes:
  \<^verbatim>\<open>current_state = OTA_STATE_ERROR; ota_stats.failed_updates++; ota_stats.last_result = r;\<close>
\<close>

definition ota_fail :: "ota_result \<Rightarrow> ota_module \<Rightarrow> ota_module" where
  "ota_fail r m =
     (let m1 = set_current_state OTA_STATE_ERROR m
      in m1\<lparr>ota_stats := (ota_stats m1)\<lparr>failed_updates := failed_updates (ota_stats m1) + 1,
                                         last_result := r\<rparr>\<rparr>)"

definition ota_update_init :: "string \<Rightarrow> ota_module \<Rightarrow> esp_err \<times> ota_module" where
  "ota_update_init app_version m =
     (ESP_OK, m\<lparr>ota_stats := zero_statistics\<lparr>last_version := strncpy_str app_version 31\<rparr>\<rparr>)"

text \<open>
  \<^verbatim>\<open>ota_start_update(config)\<close> in two parts, since the task it creates can run between
  them. \<open>None\<close> is the null pointer and \<open>task_created\<close> says whether \<^verbatim>\<open>xTaskCreate\<close>
  returned \<^verbatim>\<open>pdPASS\<close>. The first part goes up to the return after a failed
  \<^verbatim>\<open>xTaskCreate\<close>: \<open>Inl\<close> is a return of the call, \<open>Inr\<close> the module with the task
  created. The second part is the rest: the attempt is counted, Downloading is stored and the
  call returns \<^verbatim>\<open>ESP_OK\<close>.
\<close>

definition ota_start_update_until_create ::
  "ota_config option \<Rightarrow> bool \<Rightarrow> ota_module \<Rightarrow> esp_err \<times> ota_module + ota_module" where
  "ota_start_update_until_create config task_created m =
     (case config of
        None \<Rightarrow> Inl (ESP_ERR_INVALID_ARG, m)
      | Some cfg \<Rightarrow>
          if current_state m \<noteq> OTA_STATE_IDLE then Inl (ESP_ERR_INVALID_STATE, m)
          else
            let m1 = m\<lparr>local_config := cfg, cancel_requested := False\<rparr>
            in if \<not> task_created then Inl (ESP_ERR_NO_MEM, m1)
               else Inr (m1\<lparr>ota_task_handle := True, tasks_created := Suc (tasks_created m1)\<rparr>))"

definition ota_start_update_after_create :: "ota_module \<Rightarrow> esp_err \<times> ota_module" where
  "ota_start_update_after_create m =
     (ESP_OK,
      set_current_state OTA_STATE_DOWNLOADING
        (m\<lparr>ota_stats := (ota_stats m)\<lparr>total_updates := total_updates (ota_stats m) + 1\<rparr>\<rparr>))"

text \<open>
  The whole call when nothing runs between the two parts: the created task has not run when
  the call returns. The body of that task is \<open>ota_task\<close> below.
\<close>

definition ota_start_update :: "ota_config option \<Rightarrow> bool \<Rightarrow> ota_module \<Rightarrow> esp_err \<times> ota_module" where
  "ota_start_update config task_created m =
     (case config of
        None \<Rightarrow> (ESP_ERR_INVALID_ARG, m)
      | Some cfg \<Rightarrow>
          if current_state m \<noteq> OTA_STATE_IDLE then (ESP_ERR_INVALID_STATE, m)
          else
            let m1 = m\<lparr>local_config := cfg, cancel_requested := False\<rparr>
            in if \<not> task_created then (ESP_ERR_NO_MEM, m1)
               else
                 let m2 = m1\<lparr>ota_task_handle := True, tasks_created := Suc (tasks_created m1)\<rparr>;
                     m3 = m2\<lparr>ota_stats := (ota_stats m2)\<lparr>total_updates := total_updates (ota_stats m2) + 1\<rparr>\<rparr>
                 in (ESP_OK, set_current_state OTA_STATE_DOWNLOADING m3))"

definition ota_update_progress :: "int \<Rightarrow> ota_state \<Rightarrow> ota_module \<Rightarrow> ota_module" where
  "ota_update_progress percentage state m =
     set_current_state state (m\<lparr>current_progress := percentage\<rparr>)"

definition ota_get_state :: "ota_module \<Rightarrow> ota_state" where
  "ota_get_state m = current_state m"

definition ota_get_statistics :: "ota_module \<Rightarrow> ota_statistics" where
  "ota_get_statistics m = ota_stats m"

definition ota_get_current_version :: "string \<Rightarrow> nat \<Rightarrow> string option" where
  "ota_get_current_version app_version buffer_size =
     (if buffer_size = 0 then None else Some (strncpy_str app_version (buffer_size - 1)))"

definition ota_is_updating :: "ota_module \<Rightarrow> bool" where
  "ota_is_updating m =
     (current_state m \<noteq> OTA_STATE_IDLE \<and> current_state m \<noteq> OTA_STATE_SUCCESS
      \<and> current_state m \<noteq> OTA_STATE_ERROR)"

definition ota_get_progress :: "ota_module \<Rightarrow> int" where
  "ota_get_progress m = current_progress m"

definition ota_cancel_update :: "ota_module \<Rightarrow> esp_err \<times> ota_module" where
  "ota_cancel_update m =
     (if \<not> ota_is_updating m then (ESP_ERR_INVALID_STATE, m)
      else (ESP_OK, m\<lparr>cancel_requested := True\<rparr>))"

definition ota_reset_statistics :: "ota_module \<Rightarrow> esp_err \<times> ota_module" where
  "ota_reset_statistics m = (ESP_OK, m\<lparr>ota_stats := zero_statistics\<rparr>)"

subsection \<open>Calls from the command worker\<close>

text \<open>
  The public functions another task can call while an update runs. Only the new module
  state is kept; the queries return a value and change nothing.
\<close>

datatype api_call =
    Call_update_init string
  | Call_start "ota_config option" bool
  | Call_cancel
  | Call_reset_statistics
  | Call_get_state
  | Call_get_progress
  | Call_get_statistics
  | Call_is_updating

fun api_step :: "api_call \<Rightarrow> ota_module \<Rightarrow> ota_module" where
  "api_step (Call_update_init app_version) m = snd (ota_update_init app_version m)"
| "api_step (Call_start config task_created) m = snd (ota_start_update config task_created m)"
| "api_step Call_cancel m = snd (ota_cancel_update m)"
| "api_step Call_reset_statistics m = snd (ota_reset_statistics m)"
| "api_step Call_get_state m = m"
| "api_step Call_get_progress m = m"
| "api_step Call_get_statistics m = m"
| "api_step Call_is_updating m = m"

fun api_steps :: "api_call list \<Rightarrow> ota_module \<Rightarrow> ota_module" where
  "api_steps [] m = m"
| "api_steps (c # cs) m = api_steps cs (api_step c m)"

subsection \<open>The download worker\<close>

text \<open>
  One pass of the \<^verbatim>\<open>while (1)\<close> loop as the collaborators answer it: the calls other
  tasks make while the worker waits in \<^verbatim>\<open>esp_http_client_read\<close>, the value that read
  returns, the content of \<^verbatim>\<open>ota_write_data\<close> after it, and whether \<^verbatim>\<open>esp_ota_write\<close>
  returns \<^verbatim>\<open>ESP_OK\<close>.
\<close>

record chunk_io =
  calls :: "api_call list"
  data_read :: int
  ota_write_data :: string
  write_ok :: bool

text \<open>
  Everything one run of \<^verbatim>\<open>ota_task\<close> obtains from outside the repository. The first
  five fields are sizes and an offset from the ESP-IDF headers
  (\<^verbatim>\<open>esp_image_header_t\<close>, \<^verbatim>\<open>esp_image_segment_header_t\<close>, \<^verbatim>\<open>esp_app_desc_t\<close> and its
  \<^verbatim>\<open>version\<close> array); \<open>running_version\<close> is the \<^verbatim>\<open>version\<close> array of
  \<^verbatim>\<open>esp_app_get_description()\<close>; \<open>fetch_headers_result\<close> is the \<^verbatim>\<open>int64_t\<close> that
  \<^verbatim>\<open>esp_http_client_fetch_headers\<close> returns. The \<open>calls_on_...\<close> fields are the calls
  other tasks make while the worker waits in the named collaborator.
\<close>

record worker_env =
  sizeof_image_header :: nat
  sizeof_segment_header :: nat
  sizeof_app_desc :: nat
  offsetof_version :: nat
  sizeof_version :: nat
  running_version :: string
  http_client_init_ok :: bool
  update_partition_found :: bool
  ota_begin_ok :: bool
  calls_on_open :: "api_call list"
  http_open_ok :: bool
  fetch_headers_result :: int
  malloc_ok :: bool
  reads :: "chunk_io list"
  calls_on_end :: "api_call list"
  ota_end_err :: esp_err
  calls_on_set_boot :: "api_call list"
  set_boot_ok :: bool
  uptime_seconds :: "32 word"

text \<open>The fields of \<^verbatim>\<open>ota_context_t\<close> the task reads back.\<close>

record ota_context =
  config :: ota_config
  binary_file_length :: int
  image_header_was_checked :: bool
  new_app_version :: string

definition ota_validate_image_header :: "worker_env \<Rightarrow> string option \<Rightarrow> esp_err" where
  "ota_validate_image_header env new_app_info =
     (case new_app_info of
        None \<Rightarrow> ESP_ERR_INVALID_ARG
      | Some new_version \<Rightarrow>
          if memcmp_eq new_version (running_version env) (sizeof_version env) then ESP_FAIL
          else ESP_OK)"

text \<open>
  \<^verbatim>\<open>sizeof(esp_image_header_t) + sizeof(esp_image_segment_header_t) + sizeof(esp_app_desc_t)\<close>
\<close>

definition descriptor_end :: "worker_env \<Rightarrow> nat" where
  "descriptor_end env = sizeof_image_header env + sizeof_segment_header env + sizeof_app_desc env"

text \<open>The \<^verbatim>\<open>version\<close> array of the descriptor copied out of the buffer.\<close>

definition version_in :: "worker_env \<Rightarrow> string \<Rightarrow> string" where
  "version_in env buf =
     take (sizeof_version env)
       (drop (sizeof_image_header env + sizeof_segment_header env + offsetof_version env) buf)"

datatype chunk_result =
    Next_iteration ota_context int ota_module
  | Break ota_context int ota_module
  | Chunk_undefined undefined_behaviour ota_module

text \<open>
  The progress computation that closes a pass of the loop, on the new byte count.
\<close>

definition ota_chunk_progress :: "ota_context \<Rightarrow> int \<Rightarrow> ota_module \<Rightarrow> chunk_result" where
  "ota_chunk_progress ctx downloaded m =
     (if downloaded > INT_MAX \<or> downloaded * 100 > INT_MAX then Chunk_undefined Signed_overflow m
      else if binary_file_length ctx = 0 then Chunk_undefined Division_by_zero m
      else
        let progress = c_div (downloaded * 100) (binary_file_length ctx);
            m1 = m\<lparr>current_progress := progress\<rparr>
        in Next_iteration ctx downloaded
             (if c_mod progress 10 = 0 \<and> progress > 0
              then ota_update_progress progress OTA_STATE_DOWNLOADING m1 else m1))"

text \<open>The body of the loop from the result of the read on.\<close>

definition ota_chunk :: "worker_env \<Rightarrow> chunk_io \<Rightarrow> ota_context \<Rightarrow> int \<Rightarrow> ota_module \<Rightarrow> chunk_result" where
  "ota_chunk env io ctx downloaded m =
     (if data_read io < 0 then Break ctx downloaded (ota_fail OTA_RESULT_DOWNLOAD_ERROR m)
      else if data_read io > 0 then
        let check = (\<not> image_header_was_checked ctx \<and> data_read io > int (descriptor_end env));
            new_version = version_in env (ota_write_data io)
        in if check \<and> ota_validate_image_header env (Some new_version) \<noteq> ESP_OK
           then Break ctx downloaded (ota_fail OTA_RESULT_VERIFY_ERROR m)
           else
             let ctx1 = (if check
                         then ctx\<lparr>new_app_version := new_version, image_header_was_checked := True\<rparr>
                         else ctx);
                 m1 = m\<lparr>flash_writes := flash_writes m @ [take (nat (data_read io)) (ota_write_data io)]\<rparr>
             in if \<not> write_ok io then Break ctx1 downloaded (ota_fail OTA_RESULT_INSTALL_ERROR m1)
                else ota_chunk_progress ctx1 (downloaded + data_read io) m1
      else Break ctx downloaded m)"

datatype loop_result =
    Loop_exit ota_context int ota_module
  | Loop_undefined undefined_behaviour ota_module
  | Loop_waiting ota_module

text \<open>
  The \<^verbatim>\<open>while (1)\<close> loop over the answers still to come. When they are used up and the
  loop has not left, the worker is waiting in \<^verbatim>\<open>esp_http_client_read\<close>.
\<close>

fun ota_loop :: "worker_env \<Rightarrow> chunk_io list \<Rightarrow> ota_context \<Rightarrow> int \<Rightarrow> ota_module \<Rightarrow> loop_result" where
  "ota_loop env [] ctx downloaded m =
     (if cancel_requested m
      then Loop_exit ctx downloaded (ota_fail OTA_RESULT_DOWNLOAD_ERROR m)
      else Loop_waiting m)"
| "ota_loop env (io # rest) ctx downloaded m =
     (if cancel_requested m
      then Loop_exit ctx downloaded (ota_fail OTA_RESULT_DOWNLOAD_ERROR m)
      else
        case ota_chunk env io ctx downloaded (api_steps (calls io) m) of
          Next_iteration ctx' downloaded' m' \<Rightarrow> ota_loop env rest ctx' downloaded' m'
        | Break ctx' downloaded' m' \<Rightarrow> Loop_exit ctx' downloaded' m'
        | Chunk_undefined ub m' \<Rightarrow> Loop_undefined ub m')"

text \<open>
  How an observed run ends: the program goes on (after the worker, this is
  \<^verbatim>\<open>vTaskDelete(NULL)\<close>), or observation stops with the module state of that moment.
\<close>

datatype halt = Device_restart | Undefined undefined_behaviour | Waiting_for_read

datatype run = Running ota_module | Halted halt ota_module

fun module_of :: "run \<Rightarrow> ota_module" where
  "module_of (Running m) = m"
| "module_of (Halted h m) = m"

text \<open>The label \<^verbatim>\<open>ota_end\<close>: the task clears its handle and deletes itself.\<close>

definition ota_end :: "ota_module \<Rightarrow> run" where
  "ota_end m = Running (m\<lparr>ota_task_handle := False\<rparr>)"

text \<open>From the end of the loop to the label \<^verbatim>\<open>ota_end\<close>.\<close>

definition ota_finish :: "worker_env \<Rightarrow> ota_context \<Rightarrow> ota_module \<Rightarrow> run" where
  "ota_finish env ctx m =
     (if current_state m \<noteq> OTA_STATE_ERROR then
        let m1 = ota_update_progress 95 OTA_STATE_VERIFYING (set_current_state OTA_STATE_VERIFYING m);
            m2 = api_steps (calls_on_end env) m1
        in if ota_end_err env \<noteq> ESP_OK then
             ota_end (ota_fail (if ota_end_err env = ESP_ERR_OTA_VALIDATE_FAILED
                                then OTA_RESULT_VERIFY_ERROR else OTA_RESULT_INSTALL_ERROR) m2)
           else
             let m3 = ota_update_progress 98 OTA_STATE_INSTALLING
                        (set_current_state OTA_STATE_INSTALLING m2);
                 m4 = api_steps (calls_on_set_boot env) m3
             in if \<not> set_boot_ok env then ota_end (ota_fail OTA_RESULT_INSTALL_ERROR m4)
                else
                  let m5 = set_current_state OTA_STATE_SUCCESS m4;
                      m6 = m5\<lparr>ota_stats := (ota_stats m5)
                                \<lparr>successful_updates := successful_updates (ota_stats m5) + 1,
                                 last_result := OTA_RESULT_SUCCESS,
                                 last_update_time := uptime_seconds env,
                                 last_version := strncpy_str (new_app_version ctx) 31\<rparr>\<rparr>;
                      m7 = ota_update_progress 100 OTA_STATE_SUCCESS m6
                  in if auto_reboot (config ctx) then Halted Device_restart m7 else ota_end m7
      else ota_end m)"

text \<open>The task from the \<^verbatim>\<open>while (1)\<close> loop on.\<close>

definition ota_from_loop ::
  "worker_env \<Rightarrow> chunk_io list \<Rightarrow> ota_context \<Rightarrow> int \<Rightarrow> ota_module \<Rightarrow> run" where
  "ota_from_loop env ios ctx downloaded m =
     (case ota_loop env ios ctx downloaded m of
        Loop_exit ctx' downloaded' m' \<Rightarrow> ota_finish env ctx' m'
      | Loop_undefined ub m' \<Rightarrow> Halted (Undefined ub) m'
      | Loop_waiting m' \<Rightarrow> Halted Waiting_for_read m')"

text \<open>
  \<^verbatim>\<open>ota_task(pvParameter)\<close>, where \<^verbatim>\<open>pvParameter\<close> is the address of \<^verbatim>\<open>local_config\<close>.
  The local \<^verbatim>\<open>int content_length\<close> takes the \<^verbatim>\<open>int64_t\<close> of
  \<^verbatim>\<open>esp_http_client_fetch_headers\<close> by conversion.
\<close>

definition ota_task :: "worker_env \<Rightarrow> ota_module \<Rightarrow> run" where
  "ota_task env m0 =
     (let ctx = \<lparr>config = local_config m0, binary_file_length = 0,
                 image_header_was_checked = False,
                 new_app_version = replicate (sizeof_version env) NUL\<rparr>;
          m = ota_update_progress 0 OTA_STATE_DOWNLOADING m0
      in if \<not> http_client_init_ok env then ota_end (ota_fail OTA_RESULT_NETWORK_ERROR m)
         else if \<not> update_partition_found env then ota_end (ota_fail OTA_RESULT_INSTALL_ERROR m)
         else if \<not> ota_begin_ok env then ota_end (ota_fail OTA_RESULT_INSTALL_ERROR m)
         else
           let m1 = api_steps (calls_on_open env) m
           in if \<not> http_open_ok env then ota_end (ota_fail OTA_RESULT_NETWORK_ERROR m1)
              else
                let content_length = int_of_int64 (fetch_headers_result env)
                in if content_length < 0 then ota_end (ota_fail OTA_RESULT_DOWNLOAD_ERROR m1)
                   else if \<not> malloc_ok env then ota_end (ota_fail OTA_RESULT_MEMORY_ERROR m1)
                   else ota_from_loop env (reads env)
                          (ctx\<lparr>binary_file_length := content_length\<rparr>) 0 m1)"

subsection \<open>Executions of the engine\<close>

text \<open>
  The task is created with priority 5 (\<^verbatim>\<open>OTA_TASK_PRIORITY\<close>) and the command worker, the
  only caller of \<^verbatim>\<open>ota_start_update\<close>, has priority 4 (\<^verbatim>\<open>COMMAND_TASK_PRIORITY\<close>): on one
  core the task runs from within \<^verbatim>\<open>xTaskCreate\<close> until it first waits or ends, and only then
  does the call go on. A task that has its HTTP client and its partition comes to
  \<^verbatim>\<open>esp_ota_begin\<close>, which erases the partition, and to \<^verbatim>\<open>esp_http_client_open\<close>, which
  connects: there it waits. A task without one of them only allocates and looks up before it
  goes to \<^verbatim>\<open>ota_end\<close>.
\<close>

definition ota_task_waits :: "worker_env \<Rightarrow> bool" where
  "ota_task_waits env = (http_client_init_ok env \<and> update_partition_found env)"

text \<open>
  The call with the created task running from within \<^verbatim>\<open>xTaskCreate\<close>. When the task waits,
  the call goes on at that wait and the task after it; all the task has done by then is
  \<^verbatim>\<open>ota_update_progress(0, OTA_STATE_DOWNLOADING, ...)\<close>, which can change places with the
  rest of the call (lemma \<open>call_goes_on_at_first_wait\<close>). When the task does not wait, the
  call goes on after the task has deleted itself.
\<close>

definition ota_start_update_preempted ::
  "ota_config option \<Rightarrow> bool \<Rightarrow> worker_env \<Rightarrow> ota_module \<Rightarrow> run" where
  "ota_start_update_preempted conf task_created env m =
     (case ota_start_update_until_create conf task_created m of
        Inl (err, m') \<Rightarrow> Running m'
      | Inr m1 \<Rightarrow>
          if ota_task_waits env then ota_task env (snd (ota_start_update_after_create m1))
          else
            (case ota_task env m1 of
               Running m2 \<Rightarrow> Running (snd (ota_start_update_after_create m2))
             | Halted h m2 \<Rightarrow> Halted h m2))"

text \<open>
  An execution is a sequence of calls of the public functions and of runs of the worker.
  \<open>Api\<close> is a call as one step (a start then returns before the task it creates has run),
  \<open>Worker\<close> a run of the task, which happens only while a created task exists; the calls made
  while it runs are those listed in its environment. \<open>Start_preempted\<close> is a start together
  with the run of the task it creates, scheduled by priority as above.
\<close>

datatype event =
    Api api_call
  | Worker worker_env
  | Start_preempted "ota_config option" bool worker_env

fun exec :: "event list \<Rightarrow> ota_module \<Rightarrow> run" where
  "exec [] m = Running m"
| "exec (Api c # es) m = exec es (api_step c m)"
| "exec (Worker env # es) m =
     (if ota_task_handle m
      then (case ota_task env m of Running m' \<Rightarrow> exec es m' | Halted h m' \<Rightarrow> Halted h m')
      else exec es m)"
| "exec (Start_preempted conf task_created env # es) m =
     (case ota_start_update_preempted conf task_created env m of
        Running m' \<Rightarrow> exec es m'
      | Halted h m' \<Rightarrow> Halted h m')"

section \<open>The command dispatcher (command\_handler.c, main.c)\<close>

record mqtt_command =
  type :: command_type
  data :: string
  timestamp :: "32 word"

text \<open>
  The FreeRTOS queue behind \<^verbatim>\<open>command_queue\<close>: its length as given to
  \<^verbatim>\<open>xQueueCreate\<close> and the items waiting, oldest first. \<^verbatim>\<open>xQueueSend\<close> is the call
  with zero ticks to wait, \<^verbatim>\<open>xQueueReceive\<close> the call whose wait has ended.
\<close>

record rtos_queue =
  uxLength :: nat
  waiting :: "mqtt_command list"

definition xQueueCreate :: "nat \<Rightarrow> rtos_queue" where
  "xQueueCreate n = \<lparr>uxLength = n, waiting = []\<rparr>"

definition xQueueSend :: "rtos_queue \<Rightarrow> mqtt_command \<Rightarrow> bool \<times> rtos_queue" where
  "xQueueSend q item =
     (if length (waiting q) < uxLength q then (True, q\<lparr>waiting := waiting q @ [item]\<rparr>)
      else (False, q))"

definition xQueueReceive :: "rtos_queue \<Rightarrow> (mqtt_command \<times> rtos_queue) option" where
  "xQueueReceive q =
     (case waiting q of [] \<Rightarrow> None | item # items \<Rightarrow> Some (item, q\<lparr>waiting := items\<rparr>))"

text \<open>
  The pointer \<^verbatim>\<open>command_queue\<close>: null, a queue, or the address of a queue that
  \<^verbatim>\<open>vQueueDelete\<close> has freed.
\<close>

datatype queue_handle = Queue_null | Queue rtos_queue | Queue_deleted

definition COMMAND_QUEUE_SIZE :: nat where
  "COMMAND_QUEUE_SIZE = 10"

text \<open>
  The variables of command\_handler.c; \<open>handler_task_created\<close> records that
  \<^verbatim>\<open>command_handler_task\<close> exists. GPIO levels, event bits and published texts act on
  collaborators only and are left out.
\<close>

record dispatcher =
  command_queue :: queue_handle
  pump_enabled :: bool
  processed_count :: "32 word"
  error_count :: "32 word"
  water_count :: "32 word"
  handler_task_created :: bool

definition dispatcher_boot :: dispatcher where
  "dispatcher_boot =
     \<lparr>command_queue = Queue_null, pump_enabled = False, processed_count = 0, error_count = 0,
      water_count = 0, handler_task_created = False\<rparr>"

text \<open>
  \<^verbatim>\<open>command_handler_init()\<close>; the arguments say whether the queue, the event group and
  the task could be created.
\<close>

definition command_handler_init :: "bool \<Rightarrow> bool \<Rightarrow> bool \<Rightarrow> dispatcher \<Rightarrow> esp_err \<times> dispatcher" where
  "command_handler_init queue_ok group_ok task_ok d =
     (if \<not> queue_ok then (ESP_ERR_NO_MEM, d\<lparr>command_queue := Queue_null\<rparr>)
      else if \<not> group_ok then (ESP_ERR_NO_MEM, d\<lparr>command_queue := Queue_deleted\<rparr>)
      else if \<not> task_ok then (ESP_ERR_NO_MEM, d\<lparr>command_queue := Queue_deleted\<rparr>)
      else (ESP_OK, d\<lparr>command_queue := Queue (xQueueCreate COMMAND_QUEUE_SIZE),
                      handler_task_created := True\<rparr>))"

text \<open>
  \<^verbatim>\<open>enqueue_command(cmd_type, data)\<close> at the time \<open>now\<close> (seconds since start); \<open>None\<close>
  is the null pointer.
\<close>

definition enqueue_command ::
  "command_type \<Rightarrow> string option \<Rightarrow> 32 word \<Rightarrow> dispatcher \<Rightarrow> undefined_behaviour + esp_err \<times> dispatcher" where
  "enqueue_command cmd_type dat now d =
     (case command_queue d of
        Queue_null \<Rightarrow> Inr (ESP_ERR_INVALID_STATE, d)
      | Queue_deleted \<Rightarrow> Inl Use_after_free
      | Queue q \<Rightarrow>
          let command = \<lparr>type = cmd_type,
                         data = (case dat of None \<Rightarrow> [] | Some s \<Rightarrow> strncpy_str s 63),
                         timestamp = now\<rparr>
          in case xQueueSend q command of
               (True, q') \<Rightarrow> Inr (ESP_OK, d\<lparr>command_queue := Queue q'\<rparr>)
             | (False, q') \<Rightarrow> Inr (ESP_ERR_TIMEOUT, d))"

text \<open>
  What one execution of a command learns from the MQTT client: whether
  \<^verbatim>\<open>get_mqtt_client()\<close> is non-null and the id \<^verbatim>\<open>esp_mqtt_client_publish\<close> returns.
  Every call of \<^verbatim>\<open>send_mqtt_response\<close> in the sources passes a non-null message, and
  only the first result of an execution is ever tested.
\<close>

record mqtt_link =
  client_present :: bool
  publish_msg_id :: int

definition send_mqtt_response :: "mqtt_link \<Rightarrow> esp_err" where
  "send_mqtt_response link =
     (if \<not> client_present link then ESP_ERR_INVALID_ARG
      else if publish_msg_id link \<ge> 0 then ESP_OK
      else ESP_ERR_INVALID_RESPONSE)"

definition strlen :: "string \<Rightarrow> nat" where
  "strlen s = length (takeWhile (\<lambda>c. c \<noteq> NUL) s)"

text \<open>
  \<^verbatim>\<open>execute_water_command()\<close> from its call to its return: the pump is switched on, the
  task sleeps for 1500 ms, the pump is switched off and the watering is counted. The results
  of the two notifications are not tested.
\<close>

definition execute_water_command :: "mqtt_link \<Rightarrow> dispatcher \<Rightarrow> esp_err \<times> dispatcher" where
  "execute_water_command link d =
     (ESP_OK, d\<lparr>pump_enabled := False, water_count := water_count d + 1\<rparr>)"

definition execute_status_command :: "mqtt_link \<Rightarrow> dispatcher \<Rightarrow> esp_err" where
  "execute_status_command link d = ESP_OK"

definition execute_reading_command :: "mqtt_link \<Rightarrow> esp_err" where
  "execute_reading_command link = ESP_OK"

text \<open>
  \<^verbatim>\<open>execute_ota_update_command(firmware_url)\<close>; \<open>task_created\<close> and \<open>app_version\<close> are
  what \<^verbatim>\<open>xTaskCreate\<close> and \<^verbatim>\<open>esp_app_get_description()\<close> answer inside the engine.
\<close>

definition execute_ota_update_command ::
  "mqtt_link \<Rightarrow> bool \<Rightarrow> string \<Rightarrow> string option \<Rightarrow> ota_module \<Rightarrow> esp_err \<times> ota_module" where
  "execute_ota_update_command link task_created app_version firmware_url' m =
     (case firmware_url' of
        None \<Rightarrow>
          (if send_mqtt_response link = ESP_OK then ESP_ERR_INVALID_ARG
           else send_mqtt_response link, m)
      | Some url \<Rightarrow>
          if strlen url = 0 then
            (if send_mqtt_response link = ESP_OK then ESP_ERR_INVALID_ARG
             else send_mqtt_response link, m)
          else if ota_is_updating m then
            (if send_mqtt_response link = ESP_OK then ESP_ERR_INVALID_STATE
             else send_mqtt_response link, m)
          else
            let ota_config =
                  \<lparr>firmware_url = strncpy_str url 255,
                   version = (case ota_get_current_version app_version 32 of
                                None \<Rightarrow> [] | Some v \<Rightarrow> v),
                   auto_reboot = True, timeout_ms = 30000\<rparr>
            in ota_start_update (Some ota_config) task_created m)"

definition execute_ota_status_command :: "mqtt_link \<Rightarrow> ota_module \<Rightarrow> esp_err" where
  "execute_ota_status_command link m = ESP_OK"

definition execute_ota_cancel_command :: "mqtt_link \<Rightarrow> ota_module \<Rightarrow> esp_err \<times> ota_module" where
  "execute_ota_cancel_command link m =
     (if \<not> ota_is_updating m then
        (if send_mqtt_response link = ESP_OK then ESP_ERR_INVALID_STATE
         else send_mqtt_response link, m)
      else ota_cancel_update m)"

subsection \<open>The firmware as a whole\<close>

record firmware =
  disp :: dispatcher
  ota :: ota_module

definition firmware_boot :: firmware where
  "firmware_boot = \<lparr>disp = dispatcher_boot, ota = ota_boot\<rparr>"

text \<open>What one pass of \<^verbatim>\<open>command_handler_task\<close> obtains from outside.\<close>

record handler_io =
  link :: mqtt_link
  ota_task_created :: bool
  app_version :: string

text \<open>The \<^verbatim>\<open>switch\<close> of \<^verbatim>\<open>command_handler_task\<close> on a received command.\<close>

definition execute_command :: "handler_io \<Rightarrow> mqtt_command \<Rightarrow> firmware \<Rightarrow> esp_err \<times> firmware" where
  "execute_command io command fw =
     (case type command of
        CMD_WATER \<Rightarrow>
          (case execute_water_command (link io) (disp fw) of (r, d) \<Rightarrow> (r, fw\<lparr>disp := d\<rparr>))
      | CMD_GET_STATUS \<Rightarrow> (execute_status_command (link io) (disp fw), fw)
      | CMD_GET_READING \<Rightarrow> (execute_reading_command (link io), fw)
      | CMD_OTA_UPDATE \<Rightarrow>
          (case execute_ota_update_command (link io) (ota_task_created io) (app_version io)
                  (Some (data command)) (ota fw)
           of (r, m) \<Rightarrow> (r, fw\<lparr>ota := m\<rparr>))
      | CMD_OTA_STATUS \<Rightarrow> (execute_ota_status_command (link io) (ota fw), fw)
      | CMD_OTA_CANCEL \<Rightarrow>
          (case execute_ota_cancel_command (link io) (ota fw) of (r, m) \<Rightarrow> (r, fw\<lparr>ota := m\<rparr>))
      | CMD_UNKNOWN \<Rightarrow> (ESP_ERR_INVALID_ARG, fw))"

text \<open>
  One pass of the loop of \<^verbatim>\<open>command_handler_task\<close>: the receive ends with a command or
  with its timeout of one second. The task exists only after a successful
  \<^verbatim>\<open>command_handler_init\<close>.
\<close>

definition command_handler_task :: "handler_io \<Rightarrow> firmware \<Rightarrow> firmware" where
  "command_handler_task io fw =
     (case command_queue (disp fw) of
        Queue q \<Rightarrow>
          if \<not> handler_task_created (disp fw) then fw
          else
            (case xQueueReceive q of
               None \<Rightarrow> fw
             | Some (command, q') \<Rightarrow>
                 (case execute_command io command (fw\<lparr>disp := (disp fw)\<lparr>command_queue := Queue q'\<rparr>\<rparr>)
                  of (exec_result, fw1) \<Rightarrow>
                    if exec_result = ESP_OK
                    then fw1\<lparr>disp := (disp fw1)\<lparr>processed_count := processed_count (disp fw1) + 1\<rparr>\<rparr>
                    else fw1\<lparr>disp := (disp fw1)\<lparr>error_count := error_count (disp fw1) + 1\<rparr>\<rparr>))
      | Queue_null \<Rightarrow> fw
      | Queue_deleted \<Rightarrow> fw)"

text \<open>
  \<^verbatim>\<open>mqtt_event_handler\<close> of main.c. A data event carries \<^verbatim>\<open>event->data\<close> and
  \<^verbatim>\<open>event->data_len\<close>; the other events leave both modules alone.
\<close>

datatype mqtt_event =
    MQTT_EVENT_CONNECTED
  | MQTT_EVENT_DISCONNECTED
  | MQTT_EVENT_ERROR
  | MQTT_EVENT_DATA "string option" int
  | MQTT_EVENT_OTHER

fun mqtt_event_handler :: "mqtt_event \<Rightarrow> 32 word \<Rightarrow> dispatcher \<Rightarrow> undefined_behaviour + dispatcher" where
  "mqtt_event_handler (MQTT_EVENT_DATA event_data event_data_len) now d =
     (let cmd_type = parse_command event_data event_data_len
      in if cmd_type \<noteq> CMD_UNKNOWN then
           (case enqueue_command cmd_type None now d of
              Inl ub \<Rightarrow> Inl ub
            | Inr (result, d') \<Rightarrow> Inr d')
         else Inr d)"
| "mqtt_event_handler MQTT_EVENT_CONNECTED now d = Inr d"
| "mqtt_event_handler MQTT_EVENT_DISCONNECTED now d = Inr d"
| "mqtt_event_handler MQTT_EVENT_ERROR now d = Inr d"
| "mqtt_event_handler MQTT_EVENT_OTHER now d = Inr d"

text \<open>
  What can happen to the firmware: the two initialisations of \<^verbatim>\<open>app_main\<close>, an MQTT
  event in the transport task, a pass of the command worker, a run of the download worker.
\<close>

datatype firmware_event =
    Init_command_handler bool bool bool
  | Init_ota_update string
  | Transport mqtt_event "32 word"
  | Handler_pass handler_io
  | Download worker_env

datatype firmware_run = Firmware_running firmware | Firmware_halted halt firmware

fun firmware_of :: "firmware_run \<Rightarrow> firmware" where
  "firmware_of (Firmware_running fw) = fw"
| "firmware_of (Firmware_halted h fw) = fw"

fun firmware_step :: "firmware_event \<Rightarrow> firmware \<Rightarrow> firmware_run" where
  "firmware_step (Init_command_handler queue_ok group_ok task_ok) fw =
     Firmware_running (fw\<lparr>disp := snd (command_handler_init queue_ok group_ok task_ok (disp fw))\<rparr>)"
| "firmware_step (Init_ota_update v) fw =
     Firmware_running (fw\<lparr>ota := snd (ota_update_init v (ota fw))\<rparr>)"
| "firmware_step (Transport ev now) fw =
     (case mqtt_event_handler ev now (disp fw) of
        Inl ub \<Rightarrow> Firmware_halted (Undefined ub) fw
      | Inr d \<Rightarrow> Firmware_running (fw\<lparr>disp := d\<rparr>))"
| "firmware_step (Handler_pass io) fw = Firmware_running (command_handler_task io fw)"
| "firmware_step (Download env) fw =
     (if ota_task_handle (ota fw)
      then (case ota_task env (ota fw) of
              Running m \<Rightarrow> Firmware_running (fw\<lparr>ota := m\<rparr>)
            | Halted h m \<Rightarrow> Firmware_halted h (fw\<lparr>ota := m\<rparr>))
      else Firmware_running fw)"

fun run_firmware :: "firmware_event list \<Rightarrow> firmware \<Rightarrow> firmware_run" where
  "run_firmware [] fw = Firmware_running fw"
| "run_firmware (e # es) fw =
     (case firmware_step e fw of
        Firmware_running fw' \<Rightarrow> run_firmware es fw'
      | Firmware_halted h fw' \<Rightarrow> Firmware_halted h fw')"

section \<open>Notions the properties are stated with\<close>

subsection \<open>The transition graph of the update state\<close>

text \<open>
  The edges \<open>Idle \<rightarrow> Downloading \<rightarrow> {Verifying \<rightarrow> Installing \<rightarrow> Success | Error}\<close>, with an
  edge to \<open>Error\<close> from each of \<open>Downloading\<close>, \<open>Verifying\<close> and \<open>Installing\<close>, and none
  out of \<open>Success\<close> and \<open>Error\<close>.
\<close>

fun dag_edge :: "ota_state \<Rightarrow> ota_state \<Rightarrow> bool" where
  "dag_edge OTA_STATE_IDLE s = (s = OTA_STATE_DOWNLOADING)"
| "dag_edge OTA_STATE_DOWNLOADING s = (s = OTA_STATE_VERIFYING \<or> s = OTA_STATE_ERROR)"
| "dag_edge OTA_STATE_VERIFYING s = (s = OTA_STATE_INSTALLING \<or> s = OTA_STATE_ERROR)"
| "dag_edge OTA_STATE_INSTALLING s = (s = OTA_STATE_SUCCESS \<or> s = OTA_STATE_ERROR)"
| "dag_edge OTA_STATE_SUCCESS s = False"
| "dag_edge OTA_STATE_ERROR s = False"

text \<open>Every stored value either repeats the one before it or follows an edge from it.\<close>

fun along_dag :: "ota_state list \<Rightarrow> bool" where
  "along_dag (a # b # rest) = ((a = b \<or> dag_edge a b) \<and> along_dag (b # rest))"
| "along_dag [a] = True"
| "along_dag [] = True"

definition trace_ok :: "ota_module \<Rightarrow> bool" where
  "trace_ok m =
     (state_trace m \<noteq> [] \<and> last (state_trace m) = current_state m \<and> along_dag (state_trace m))"

definition chunk_ok :: "chunk_result \<Rightarrow> bool" where
  "chunk_ok r =
     (case r of
        Next_iteration c d m \<Rightarrow> trace_ok m \<and> current_state m = OTA_STATE_DOWNLOADING
      | Break c d m \<Rightarrow>
          trace_ok m \<and> (current_state m = OTA_STATE_DOWNLOADING \<or> current_state m = OTA_STATE_ERROR)
      | Chunk_undefined ub m \<Rightarrow> trace_ok m)"

definition loop_ok :: "loop_result \<Rightarrow> bool" where
  "loop_ok r =
     (case r of
        Loop_exit c d m \<Rightarrow>
          trace_ok m \<and> (current_state m = OTA_STATE_DOWNLOADING \<or> current_state m = OTA_STATE_ERROR)
      | Loop_undefined ub m \<Rightarrow> trace_ok m
      | Loop_waiting m \<Rightarrow> trace_ok m)"

definition run_ok :: "run \<Rightarrow> bool" where
  "run_ok r =
     (case r of
        Running m \<Rightarrow>
          trace_ok m \<and> \<not> ota_task_handle m
          \<and> (current_state m = OTA_STATE_SUCCESS \<or> current_state m = OTA_STATE_ERROR)
      | Halted h m \<Rightarrow> trace_ok m)"

definition engine_inv :: "ota_module \<Rightarrow> bool" where
  "engine_inv m =
     (trace_ok m \<and> (ota_task_handle m \<longrightarrow> current_state m = OTA_STATE_DOWNLOADING))"

text \<open>
  The events in which the call of a start goes on before its task can have failed: all but a
  start whose task ends without waiting.
\<close>

fun call_goes_on_first :: "event \<Rightarrow> bool" where
  "call_goes_on_first (Start_preempted conf task_created env) = ota_task_waits env"
| "call_goes_on_first (Api c) = True"
| "call_goes_on_first (Worker env) = True"

subsection \<open>Sample inputs\<close>

text \<open>
  The sizes of ESP-IDF 5 (24, 8 and 256 bytes, the version array 32 bytes at offset 16 of
  the descriptor), a running image of version 1.0.0, and collaborators that all succeed.
\<close>

definition version_1_0_0 :: string where
  "version_1_0_0 = ''1.0.0'' @ replicate 27 NUL"

definition idf_env :: worker_env where
  "idf_env =
     \<lparr>sizeof_image_header = 24, sizeof_segment_header = 8, sizeof_app_desc = 256,
      offsetof_version = 16, sizeof_version = 32, running_version = version_1_0_0,
      http_client_init_ok = True, update_partition_found = True, ota_begin_ok = True,
      calls_on_open = [], http_open_ok = True, fetch_headers_result = 400, malloc_ok = True,
      reads = [], calls_on_end = [], ota_end_err = ESP_OK, calls_on_set_boot = [],
      set_boot_ok = True, uptime_seconds = 60\<rparr>"

definition short_chunk :: chunk_io where
  "short_chunk =
     \<lparr>calls = [], data_read = 100, ota_write_data = replicate 100 (CHR ''s''), write_ok = True\<rparr>"

definition same_version_chunk :: chunk_io where
  "same_version_chunk =
     \<lparr>calls = [], data_read = 300,
      ota_write_data = replicate 48 (CHR ''h'') @ version_1_0_0 @ replicate 220 (CHR ''d''),
      write_ok = True\<rparr>"


text \<open>
  A chunk whose version array holds the same C string as the running image, 1.0.0, but other
  bytes after the terminating NUL.
\<close>

definition padded_version_chunk :: chunk_io where
  "padded_version_chunk =
     \<lparr>calls = [], data_read = 300,
      ota_write_data = replicate 48 (CHR ''h'') @ ''1.0.0'' @ [NUL] @ replicate 26 (CHR ''p'')
                         @ replicate 220 (CHR ''d''),
      write_ok = True\<rparr>"

definition end_of_file :: chunk_io where
  "end_of_file = \<lparr>calls = [], data_read = 0, ota_write_data = [], write_ok = True\<rparr>"

text \<open>
  An image of 1400 bytes with version 1.0.0 in its descriptor, and the answers of
  \<^verbatim>\<open>esp_http_client_read\<close> when the image arrives in chunks of the given sizes, the end of
  the source after them.
\<close>

definition same_version_image :: string where
  "same_version_image = replicate 48 (CHR ''h'') @ version_1_0_0 @ replicate 1320 (CHR ''d'')"

fun reads_of :: "nat list \<Rightarrow> string \<Rightarrow> chunk_io list" where
  "reads_of [] bytes = [end_of_file]"
| "reads_of (n # ns) bytes =
     \<lparr>calls = [], data_read = int n, ota_write_data = take n bytes, write_ok = True\<rparr>
     # reads_of ns (drop n bytes)"

text \<open>The module after a first accepted start.\<close>

definition started :: ota_module where
  "started = snd (ota_start_update (Some zero_config) True ota_boot)"

text \<open>An update command, as the transport delivers it, and a publisher that fails.\<close>

definition ota_update_message :: firmware_event where
  "ota_update_message = Transport (MQTT_EVENT_DATA (Some ''OTA_UPDATE'') 10) 7"

definition water_message :: firmware_event where
  "water_message = Transport (MQTT_EVENT_DATA (Some ''WATER'') 5) 7"

definition failing_publisher :: handler_io where
  "failing_publisher =
     \<lparr>link = \<lparr>client_present = True, publish_msg_id = - 1\<rparr>, ota_task_created = True,
      app_version = version_1_0_0\<rparr>"

text \<open>The initialisation followed by ten watering commands and no pass of the worker.\<close>

definition full_queue_run :: "firmware_event list" where
  "full_queue_run = Init_command_handler True True True # replicate 10 water_message"

subsection \<open>Invariants of the firmware\<close>

text \<open>The queue, when there is one, has the configured length and holds no more than that.\<close>

definition queue_bounded :: "firmware \<Rightarrow> bool" where
  "queue_bounded fw =
     (case command_queue (disp fw) of
        Queue q \<Rightarrow> uxLength q = COMMAND_QUEUE_SIZE \<and> length (waiting q) \<le> COMMAND_QUEUE_SIZE
      | Queue_null \<Rightarrow> True
      | Queue_deleted \<Rightarrow> True)"

text \<open>Every waiting command has an empty payload, and the engine has never been started.\<close>

definition transport_only :: "firmware \<Rightarrow> bool" where
  "transport_only fw =
     ((case command_queue (disp fw) of
         Queue q \<Rightarrow> list_all (\<lambda>c. data c = []) (waiting q)
       | Queue_null \<Rightarrow> True
       | Queue_deleted \<Rightarrow> True)
      \<and> current_state (ota fw) = OTA_STATE_IDLE \<and> \<not> ota_task_handle (ota fw)
      \<and> tasks_created (ota fw) = 0 \<and> total_updates (ota_stats (ota fw)) = 0)"

section \<open>Properties of the update engine\<close>

subsection \<open>Unfolding the model on concrete inputs\<close>

lemmas ota_eval =
  ota_start_update_def ota_cancel_update_def ota_reset_statistics_def ota_update_init_def
  ota_is_updating_def ota_boot_def zero_statistics_def zero_config_def set_current_state_def
  ota_fail_def ota_update_progress_def ota_task_def ota_from_loop_def ota_finish_def ota_end_def
  ota_chunk_def ota_chunk_progress_def ota_validate_image_header_def descriptor_end_def
  version_in_def memcmp_eq_def strncpy_str_def INT_MAX_def c_div_def c_mod_def NUL_def Let_def
  int_of_int64_def

lemmas sample_eval =
  idf_env_def version_1_0_0_def short_chunk_def same_version_chunk_def end_of_file_def started_def

lemma started_eval:
  "started = ota_boot\<lparr>current_state := OTA_STATE_DOWNLOADING, ota_task_handle := True,
      ota_stats := zero_statistics\<lparr>total_updates := 1\<rparr>,
      state_trace := [OTA_STATE_IDLE, OTA_STATE_DOWNLOADING], tasks_created := 1\<rparr>"
  by (simp add: started_def ota_eval)

subsection \<open>Assignments to the update state\<close>

lemma along_dag_snoc:
  "along_dag (xs @ [s]) = (xs = [] \<or> (along_dag xs \<and> (last xs = s \<or> dag_edge (last xs) s)))"
  by (induction xs rule: along_dag.induct) auto

lemma trace_ok_set:
  "trace_ok m \<Longrightarrow> current_state m = s \<or> dag_edge (current_state m) s
   \<Longrightarrow> trace_ok (set_current_state s m)"
  by (auto simp: trace_ok_def set_current_state_def along_dag_snoc)

lemma state_set [simp]: "current_state (set_current_state s m) = s"
  by (simp add: set_current_state_def)

lemma trace_ok_upd [simp]:
  "trace_ok (m\<lparr>ota_stats := st\<rparr>) = trace_ok m"
  "trace_ok (m\<lparr>current_progress := p\<rparr>) = trace_ok m"
  "trace_ok (m\<lparr>cancel_requested := c\<rparr>) = trace_ok m"
  "trace_ok (m\<lparr>local_config := cfg\<rparr>) = trace_ok m"
  "trace_ok (m\<lparr>ota_task_handle := h\<rparr>) = trace_ok m"
  "trace_ok (m\<lparr>tasks_created := n\<rparr>) = trace_ok m"
  "trace_ok (m\<lparr>flash_writes := w\<rparr>) = trace_ok m"
  by (simp_all add: trace_ok_def)

lemma trace_ok_fail:
  "trace_ok m \<Longrightarrow> current_state m = OTA_STATE_DOWNLOADING \<or> current_state m = OTA_STATE_VERIFYING
      \<or> current_state m = OTA_STATE_INSTALLING \<or> current_state m = OTA_STATE_ERROR
   \<Longrightarrow> trace_ok (ota_fail r m)"
  by (auto simp: ota_fail_def Let_def intro!: trace_ok_set)

lemma state_fail [simp]: "current_state (ota_fail r m) = OTA_STATE_ERROR"
  by (simp add: ota_fail_def Let_def)

lemma trace_ok_progress:
  "trace_ok m \<Longrightarrow> current_state m = s \<or> dag_edge (current_state m) s
   \<Longrightarrow> trace_ok (ota_update_progress p s m)"
  by (auto simp: ota_update_progress_def intro!: trace_ok_set)

lemma state_progress [simp]: "current_state (ota_update_progress p s m) = s"
  by (simp add: ota_update_progress_def)

subsection \<open>Calls while an update runs\<close>

lemma api_step_busy:
  "current_state m \<noteq> OTA_STATE_IDLE \<Longrightarrow>
   current_state (api_step c m) = current_state m \<and> state_trace (api_step c m) = state_trace m
   \<and> ota_task_handle (api_step c m) = ota_task_handle m
   \<and> tasks_created (api_step c m) = tasks_created m
   \<and> local_config (api_step c m) = local_config m"
  by (cases c) (auto simp: ota_start_update_def ota_cancel_update_def ota_reset_statistics_def
        ota_update_init_def split: option.splits)

lemma api_steps_busy:
  "current_state m \<noteq> OTA_STATE_IDLE \<Longrightarrow>
   current_state (api_steps cs m) = current_state m \<and> state_trace (api_steps cs m) = state_trace m
   \<and> ota_task_handle (api_steps cs m) = ota_task_handle m
   \<and> tasks_created (api_steps cs m) = tasks_created m
   \<and> local_config (api_steps cs m) = local_config m"
proof (induction cs arbitrary: m)
  case Nil
  then show ?case by simp
next
  case (Cons c cs)
  from api_step_busy [OF Cons.prems, of c] have "current_state (api_step c m) \<noteq> OTA_STATE_IDLE"
    using Cons.prems by simp
  from Cons.IH [OF this] api_step_busy [OF Cons.prems, of c] show ?case by simp
qed

lemma trace_ok_api_steps:
  "trace_ok m \<Longrightarrow> current_state m \<noteq> OTA_STATE_IDLE \<Longrightarrow> trace_ok (api_steps cs m)"
  using api_steps_busy [of m cs] by (simp add: trace_ok_def)

lemma flash_writes_api_step [simp]: "flash_writes (api_step c m) = flash_writes m"
  by (cases c) (auto simp: ota_start_update_def ota_cancel_update_def ota_reset_statistics_def
        ota_update_init_def set_current_state_def Let_def split: option.splits)

lemma flash_writes_api_steps [simp]: "flash_writes (api_steps cs m) = flash_writes m"
  by (induction cs arbitrary: m) simp_all

subsection \<open>The worker keeps to the graph\<close>

lemma chunk_ok_simps [simp]:
  "chunk_ok (Next_iteration c d m) = (trace_ok m \<and> current_state m = OTA_STATE_DOWNLOADING)"
  "chunk_ok (Break c d m) =
     (trace_ok m \<and> (current_state m = OTA_STATE_DOWNLOADING \<or> current_state m = OTA_STATE_ERROR))"
  "chunk_ok (Chunk_undefined ub m) = trace_ok m"
  by (simp_all add: chunk_ok_def)

lemma loop_ok_simps [simp]:
  "loop_ok (Loop_exit c d m) =
     (trace_ok m \<and> (current_state m = OTA_STATE_DOWNLOADING \<or> current_state m = OTA_STATE_ERROR))"
  "loop_ok (Loop_undefined ub m) = trace_ok m"
  "loop_ok (Loop_waiting m) = trace_ok m"
  by (simp_all add: loop_ok_def)

lemma run_ok_simps [simp]:
  "run_ok (Running m) =
     (trace_ok m \<and> \<not> ota_task_handle m
      \<and> (current_state m = OTA_STATE_SUCCESS \<or> current_state m = OTA_STATE_ERROR))"
  "run_ok (Halted h m) = trace_ok m"
  by (simp_all add: run_ok_def)

lemma ota_chunk_progress_ok:
  "trace_ok m \<Longrightarrow> current_state m = OTA_STATE_DOWNLOADING \<Longrightarrow> chunk_ok (ota_chunk_progress ctx d m)"
  by (simp add: ota_chunk_progress_def Let_def trace_ok_progress)

lemma ota_chunk_ok:
  assumes "trace_ok m" "current_state m = OTA_STATE_DOWNLOADING"
  shows "chunk_ok (ota_chunk env io ctx d m)"
  using assms
  by (simp add: ota_chunk_def Let_def trace_ok_fail ota_chunk_progress_ok)

lemma ota_loop_ok:
  "trace_ok m \<Longrightarrow> current_state m = OTA_STATE_DOWNLOADING \<Longrightarrow> loop_ok (ota_loop env ios ctx d m)"
proof (induction ios arbitrary: ctx d m)
  case Nil
  then show ?case by (simp add: trace_ok_fail)
next
  case (Cons io rest)
  let ?m = "api_steps (calls io) m"
  have m: "trace_ok ?m" "current_state ?m = OTA_STATE_DOWNLOADING"
    using Cons.prems trace_ok_api_steps [of m "calls io"] api_steps_busy [of m "calls io"]
    by simp_all
  show ?case
  proof (cases "cancel_requested m")
    case True
    then show ?thesis using Cons.prems by (simp add: trace_ok_fail)
  next
    case False
    show ?thesis
    proof (cases "ota_chunk env io ctx d ?m")
      case (Next_iteration c' d' m')
      with ota_chunk_ok [OF m, of env io ctx d]
      have "trace_ok m'" "current_state m' = OTA_STATE_DOWNLOADING"
        by simp_all
      from Cons.IH [OF this] show ?thesis using False Next_iteration by simp
    next
      case (Break c' d' m')
      with ota_chunk_ok [OF m, of env io ctx d] show ?thesis using False by simp
    next
      case (Chunk_undefined ub m')
      with ota_chunk_ok [OF m, of env io ctx d] show ?thesis using False by simp
    qed
  qed
qed

lemma ota_end_ok:
  "trace_ok m \<Longrightarrow> current_state m = OTA_STATE_SUCCESS \<or> current_state m = OTA_STATE_ERROR
   \<Longrightarrow> run_ok (ota_end m)"
  by (simp add: ota_end_def)

lemma ota_end_fail_ok:
  "trace_ok m \<Longrightarrow> current_state m = OTA_STATE_DOWNLOADING \<or> current_state m = OTA_STATE_VERIFYING
      \<or> current_state m = OTA_STATE_INSTALLING \<or> current_state m = OTA_STATE_ERROR
   \<Longrightarrow> run_ok (ota_end (ota_fail r m))"
  by (rule ota_end_ok) (simp_all add: trace_ok_fail)

lemma ota_finish_ok:
  assumes "trace_ok m" "current_state m = OTA_STATE_DOWNLOADING \<or> current_state m = OTA_STATE_ERROR"
  shows "run_ok (ota_finish env ctx m)"
proof (cases "current_state m = OTA_STATE_ERROR")
  case True
  then show ?thesis using assms by (simp add: ota_finish_def ota_end_ok)
next
  case False
  with assms have dl: "current_state m = OTA_STATE_DOWNLOADING" by simp
  let ?m1 = "ota_update_progress 95 OTA_STATE_VERIFYING (set_current_state OTA_STATE_VERIFYING m)"
  let ?m2 = "api_steps (calls_on_end env) ?m1"
  have m1: "trace_ok ?m1" "current_state ?m1 = OTA_STATE_VERIFYING"
    using assms(1) dl by (simp_all add: trace_ok_progress trace_ok_set)
  have m2: "trace_ok ?m2" "current_state ?m2 = OTA_STATE_VERIFYING"
    using m1 trace_ok_api_steps [of ?m1 "calls_on_end env"] api_steps_busy [of ?m1 "calls_on_end env"]
    by simp_all
  let ?m3 = "ota_update_progress 98 OTA_STATE_INSTALLING (set_current_state OTA_STATE_INSTALLING ?m2)"
  let ?m4 = "api_steps (calls_on_set_boot env) ?m3"
  have m3: "trace_ok ?m3" "current_state ?m3 = OTA_STATE_INSTALLING"
    using m2 by (simp_all add: trace_ok_progress trace_ok_set)
  have m4: "trace_ok ?m4" "current_state ?m4 = OTA_STATE_INSTALLING"
    using m3 trace_ok_api_steps [of ?m3 "calls_on_set_boot env"]
      api_steps_busy [of ?m3 "calls_on_set_boot env"]
    by simp_all
  let ?m5 = "set_current_state OTA_STATE_SUCCESS ?m4"
  have m5: "trace_ok ?m5" "current_state ?m5 = OTA_STATE_SUCCESS"
    using m4 by (simp_all add: trace_ok_set)
  have e1: "run_ok (ota_end (ota_fail r ?m2))" for r
    using m2 by (simp add: ota_end_fail_ok)
  have e2: "run_ok (ota_end (ota_fail r ?m4))" for r
    using m4 by (simp add: ota_end_fail_ok)
  have s7: "trace_ok (ota_update_progress 100 OTA_STATE_SUCCESS (?m5\<lparr>ota_stats := st\<rparr>))" for st
    using m5 by (simp add: trace_ok_progress)
  show ?thesis
    unfolding ota_finish_def Let_def
    using False e1 e2 s7 by (simp add: ota_end_ok)
qed

lemma ota_from_loop_ok:
  assumes "trace_ok m" "current_state m = OTA_STATE_DOWNLOADING"
  shows "run_ok (ota_from_loop env ios ctx d m)"
  using ota_loop_ok [OF assms, of env ios ctx d]
  by (cases "ota_loop env ios ctx d m") (simp_all add: ota_from_loop_def ota_finish_ok)

lemma ota_task_ok:
  assumes "trace_ok m" "current_state m = OTA_STATE_DOWNLOADING"
  shows "run_ok (ota_task env m)"
proof -
  let ?m = "ota_update_progress 0 OTA_STATE_DOWNLOADING m"
  let ?m1 = "api_steps (calls_on_open env) ?m"
  have m: "trace_ok ?m" "current_state ?m = OTA_STATE_DOWNLOADING"
    using assms by (simp_all add: trace_ok_progress)
  have m1: "trace_ok ?m1" "current_state ?m1 = OTA_STATE_DOWNLOADING"
    using m trace_ok_api_steps [of ?m "calls_on_open env"] api_steps_busy [of ?m "calls_on_open env"]
    by simp_all
  have f0: "run_ok (ota_end (ota_fail r ?m))" for r
    using m by (simp add: ota_end_fail_ok)
  have f1: "run_ok (ota_end (ota_fail r ?m1))" for r
    using m1 by (simp add: ota_end_fail_ok)
  note l = ota_from_loop_ok [OF m1]
  show ?thesis
    unfolding ota_task_def Let_def
    using f0 f1 l by simp
qed

subsection \<open>Executions and the graph\<close>

lemma engine_inv_api_step: "engine_inv m \<Longrightarrow> engine_inv (api_step c m)"
  by (cases c)
     (auto simp: engine_inv_def ota_start_update_def ota_cancel_update_def ota_reset_statistics_def
        ota_update_init_def Let_def trace_ok_set split: option.splits)

lemma engine_inv_boot: "engine_inv ota_boot"
  by (simp add: engine_inv_def trace_ok_def ota_boot_def)

text \<open>The two parts of the call make up the call.\<close>

lemma ota_start_update_parts:
  "ota_start_update conf task_created m =
     (case ota_start_update_until_create conf task_created m of
        Inl r \<Rightarrow> r
      | Inr m1 \<Rightarrow> ota_start_update_after_create m1)"
  by (simp add: ota_start_update_def ota_start_update_until_create_def
      ota_start_update_after_create_def Let_def split: option.splits)

text \<open>
  The rest of the call and the first statement of the task can change places: both store
  Downloading, one counts the attempt and the other sets the progress to zero.
\<close>

lemma call_goes_on_at_first_wait:
  "ota_update_progress 0 OTA_STATE_DOWNLOADING (snd (ota_start_update_after_create m))
     = snd (ota_start_update_after_create (ota_update_progress 0 OTA_STATE_DOWNLOADING m))"
  by (simp add: ota_start_update_after_create_def ota_update_progress_def set_current_state_def)

lemma preempted_when_task_waits:
  "ota_task_waits env \<Longrightarrow>
   ota_start_update_preempted conf task_created env m =
     (case ota_start_update_until_create conf task_created m of
        Inl r \<Rightarrow> Running (api_step (Call_start conf task_created) m)
      | Inr m1 \<Rightarrow> ota_task env (api_step (Call_start conf task_created) m))"
  by (simp add: ota_start_update_preempted_def ota_start_update_parts split: sum.splits)

lemma task_created_handle:
  "ota_start_update_until_create conf task_created m = Inr m1 \<Longrightarrow>
   ota_task_handle (api_step (Call_start conf task_created) m)"
  by (auto simp: ota_start_update_parts ota_start_update_until_create_def
      ota_start_update_after_create_def set_current_state_def Let_def
      split: option.splits if_splits)

lemma no_start_when_busy:
  "current_state m \<noteq> OTA_STATE_IDLE \<Longrightarrow>
   ota_start_update_preempted conf task_created env m = Running m"
  by (simp add: ota_start_update_preempted_def ota_start_update_until_create_def
      split: option.splits)

lemma exec_inv:
  "engine_inv m \<Longrightarrow> list_all call_goes_on_first es \<Longrightarrow>
   engine_inv (module_of (exec es m)) \<or> (\<exists>h m'. exec es m = Halted h m' \<and> trace_ok m')"
proof (induction es arbitrary: m)
  case Nil
  then show ?case by simp
next
  case (Cons e es)
  from Cons.prems have rest: "list_all call_goes_on_first es" by simp
  show ?case
  proof (cases e)
    case (Api c)
    with Cons.IH [OF engine_inv_api_step [OF Cons.prems(1), of c] rest] show ?thesis by simp
  next
    case (Worker env)
    show ?thesis
    proof (cases "ota_task_handle m")
      case False
      with Worker Cons.IH [OF Cons.prems(1) rest] show ?thesis by simp
    next
      case True
      with Cons.prems have "trace_ok m" "current_state m = OTA_STATE_DOWNLOADING"
        by (simp_all add: engine_inv_def)
      from ota_task_ok [OF this, of env] show ?thesis
      proof (cases "ota_task env m")
        case (Running m')
        with \<open>run_ok (ota_task env m)\<close> have "engine_inv m'" by (simp add: engine_inv_def)
        from Cons.IH [OF this rest] show ?thesis using Worker True Running by simp
      next
        case (Halted h m')
        with \<open>run_ok (ota_task env m)\<close> show ?thesis using Worker True by simp
      qed
    qed
  next
    case (Start_preempted conf task_created env)
    with Cons.prems have w: "ota_task_waits env" by simp
    let ?m = "api_step (Call_start conf task_created) m"
    have inv: "engine_inv ?m" by (rule engine_inv_api_step [OF Cons.prems(1)])
    show ?thesis
    proof (cases "ota_start_update_until_create conf task_created m")
      case (Inl r)
      with w have "ota_start_update_preempted conf task_created env m = Running ?m"
        by (simp add: preempted_when_task_waits)
      with Cons.IH [OF inv rest] Start_preempted show ?thesis by simp
    next
      case (Inr m1)
      with w have p: "ota_start_update_preempted conf task_created env m = ota_task env ?m"
        by (simp add: preempted_when_task_waits)
      from task_created_handle [OF Inr] inv
      have "trace_ok ?m" "current_state ?m = OTA_STATE_DOWNLOADING"
        by (simp_all add: engine_inv_def)
      from ota_task_ok [OF this, of env] show ?thesis
      proof (cases "ota_task env ?m")
        case (Running m')
        with \<open>run_ok (ota_task env ?m)\<close> have "engine_inv m'" by (simp add: engine_inv_def)
        from Cons.IH [OF this rest] show ?thesis using Start_preempted p Running by simp
      next
        case (Halted h m')
        with \<open>run_ok (ota_task env ?m)\<close> show ?thesis using Start_preempted p by simp
      qed
    qed
  qed
qed

lemma exec_trace_ok:
  "engine_inv m \<Longrightarrow> list_all call_goes_on_first es \<Longrightarrow> trace_ok (module_of (exec es m))"
  using exec_inv [of m es] by (auto simp: engine_inv_def)

lemma exec_append:
  "exec (es @ es') m = (case exec es m of Running m' \<Rightarrow> exec es' m' | Halted h m' \<Rightarrow> Halted h m')"
proof (induction es arbitrary: m)
  case Nil
  then show ?case by simp
next
  case (Cons e es)
  then show ?case by (cases e) (simp_all split: run.splits)
qed

lemma exec_terminal:
  "current_state m = OTA_STATE_SUCCESS \<or> current_state m = OTA_STATE_ERROR \<Longrightarrow> \<not> ota_task_handle m
   \<Longrightarrow> current_state (module_of (exec es m)) = current_state m"
proof (induction es arbitrary: m)
  case Nil
  then show ?case by simp
next
  case (Cons e es)
  show ?case
  proof (cases e)
    case (Api c)
    from Cons.prems have "current_state m \<noteq> OTA_STATE_IDLE" by auto
    from api_step_busy [OF this, of c] Cons.prems
    have "current_state (api_step c m) = OTA_STATE_SUCCESS \<or> current_state (api_step c m) = OTA_STATE_ERROR"
      "\<not> ota_task_handle (api_step c m)" "current_state (api_step c m) = current_state m"
      by simp_all
    with Cons.IH [of "api_step c m"] Api show ?thesis by simp
  next
    case (Worker env)
    with Cons show ?thesis by simp
  next
    case (Start_preempted conf task_created env)
    from Cons.prems have "current_state m \<noteq> OTA_STATE_IDLE" by auto
    from no_start_when_busy [OF this, of conf task_created env] Cons Start_preempted
    show ?thesis by simp
  qed
qed

text \<open>
  C1 asks that the update state move only along the graph, and that Success and Error be left
  by no operation. The code breaks both in a start whose task finds no HTTP client. The task,
  which runs from within \<^verbatim>\<open>xTaskCreate\<close>, stores Downloading and Error, clears its handle
  and deletes itself; only then does the call go on, and it stores Downloading. The values
  stored are Idle, Downloading, Error, Downloading, which is not a path of the graph: Error is
  left, and by the start itself. The module is left in Downloading with no task and one
  failure counted: it reports an update in progress, and a later start is refused with
  \<^verbatim>\<open>ESP_ERR_INVALID_STATE\<close> and creates no task.
\<close>

theorem start_stores_downloading_after_error:
  "exec [Start_preempted (Some zero_config) True (idf_env\<lparr>http_client_init_ok := False\<rparr>)] ota_boot
     = Running (ota_boot\<lparr>current_state := OTA_STATE_DOWNLOADING,
          ota_stats := zero_statistics\<lparr>total_updates := 1, failed_updates := 1,
                                       last_result := OTA_RESULT_NETWORK_ERROR\<rparr>,
          state_trace := [OTA_STATE_IDLE, OTA_STATE_DOWNLOADING, OTA_STATE_ERROR,
                          OTA_STATE_DOWNLOADING],
          tasks_created := 1\<rparr>)
   \<and> \<not> along_dag [OTA_STATE_IDLE, OTA_STATE_DOWNLOADING, OTA_STATE_ERROR, OTA_STATE_DOWNLOADING]
   \<and> \<not> dag_edge OTA_STATE_ERROR OTA_STATE_DOWNLOADING
   \<and> \<not> ota_task_handle (module_of (exec [Start_preempted (Some zero_config) True
          (idf_env\<lparr>http_client_init_ok := False\<rparr>)] ota_boot))
   \<and> ota_is_updating (module_of (exec [Start_preempted (Some zero_config) True
          (idf_env\<lparr>http_client_init_ok := False\<rparr>)] ota_boot))
   \<and> fst (ota_start_update (Some zero_config) True (module_of (exec [Start_preempted
          (Some zero_config) True (idf_env\<lparr>http_client_init_ok := False\<rparr>)] ota_boot)))
       = ESP_ERR_INVALID_STATE
   \<and> tasks_created (module_of (exec [Start_preempted (Some zero_config) True
          (idf_env\<lparr>http_client_init_ok := False\<rparr>), Api (Call_start (Some zero_config) True),
          Worker idf_env] ota_boot)) = 1"
  by (simp add: ota_start_update_preempted_def ota_start_update_until_create_def
      ota_start_update_after_create_def ota_task_waits_def ota_is_updating_def
      ota_eval sample_eval)

text \<open>
  Where the claim does hold: in the executions in which every start goes on before its task
  has failed (the call returns first, or the task waits), the values stored follow the graph,
  the last stored value is the current state, and once the state is Success or Error no
  continuation changes it.
\<close>

lemma follows_dag_when_call_goes_on_first:
  assumes "list_all call_goes_on_first es"
  shows "along_dag (state_trace (module_of (exec es ota_boot)))"
    and "last (state_trace (module_of (exec es ota_boot))) = current_state (module_of (exec es ota_boot))"
    and "current_state (module_of (exec es ota_boot)) = OTA_STATE_SUCCESS
          \<or> current_state (module_of (exec es ota_boot)) = OTA_STATE_ERROR
         \<Longrightarrow> current_state (module_of (exec (es @ es') ota_boot))
            = current_state (module_of (exec es ota_boot))"
proof -
  have t: "trace_ok (module_of (exec es ota_boot))"
    by (rule exec_trace_ok [OF engine_inv_boot assms])
  then show "along_dag (state_trace (module_of (exec es ota_boot)))"
    and "last (state_trace (module_of (exec es ota_boot))) = current_state (module_of (exec es ota_boot))"
    by (simp_all add: trace_ok_def)
  show "current_state (module_of (exec (es @ es') ota_boot))
            = current_state (module_of (exec es ota_boot))"
    if fin: "current_state (module_of (exec es ota_boot)) = OTA_STATE_SUCCESS
        \<or> current_state (module_of (exec es ota_boot)) = OTA_STATE_ERROR"
  proof (cases "exec es ota_boot")
    case (Running m')
    from exec_inv [OF engine_inv_boot assms] Running have "engine_inv m'" by simp
    with fin Running have "\<not> ota_task_handle m'" by (auto simp: engine_inv_def)
    from exec_terminal [OF _ this, of es'] fin Running show ?thesis
      by (simp add: exec_append)
  next
    case (Halted h m')
    then show ?thesis by (simp add: exec_append)
  qed
qed

text \<open>
  Each edge of the graph is taken by some execution: a worker that fails while downloading,
  while verifying, while installing, and one that succeeds.
\<close>

lemma every_edge_is_taken:
  "state_trace (module_of (exec [Api (Call_start (Some zero_config) True),
      Worker (idf_env\<lparr>http_open_ok := False\<rparr>)] ota_boot))
     = [OTA_STATE_IDLE, OTA_STATE_DOWNLOADING, OTA_STATE_DOWNLOADING, OTA_STATE_ERROR]"
  "state_trace (module_of (exec [Api (Call_start (Some zero_config) True),
      Worker (idf_env\<lparr>reads := [end_of_file], ota_end_err := ESP_ERR_OTA_VALIDATE_FAILED\<rparr>)] ota_boot))
     = [OTA_STATE_IDLE, OTA_STATE_DOWNLOADING, OTA_STATE_DOWNLOADING, OTA_STATE_VERIFYING,
        OTA_STATE_VERIFYING, OTA_STATE_ERROR]"
  "state_trace (module_of (exec [Api (Call_start (Some zero_config) True),
      Worker (idf_env\<lparr>reads := [end_of_file], set_boot_ok := False\<rparr>)] ota_boot))
     = [OTA_STATE_IDLE, OTA_STATE_DOWNLOADING, OTA_STATE_DOWNLOADING, OTA_STATE_VERIFYING,
        OTA_STATE_VERIFYING, OTA_STATE_INSTALLING, OTA_STATE_INSTALLING, OTA_STATE_ERROR]"
  "state_trace (module_of (exec [Api (Call_start (Some zero_config) True),
      Worker (idf_env\<lparr>reads := [end_of_file]\<rparr>)] ota_boot))
     = [OTA_STATE_IDLE, OTA_STATE_DOWNLOADING, OTA_STATE_DOWNLOADING, OTA_STATE_VERIFYING,
        OTA_STATE_VERIFYING, OTA_STATE_INSTALLING, OTA_STATE_INSTALLING, OTA_STATE_SUCCESS,
        OTA_STATE_SUCCESS]"
  by (simp_all add: ota_eval sample_eval)

subsection \<open>Starting while an update exists\<close>

text \<open>
  C2, as stated, fails for a null configuration: the null test of \<^verbatim>\<open>ota_start_update\<close>
  comes before the state test, so in a state other than Idle such a call returns
  \<^verbatim>\<open>ESP_ERR_INVALID_ARG\<close>, not \<^verbatim>\<open>ESP_ERR_INVALID_STATE\<close>.
\<close>

theorem start_when_busy_counterexample:
  "current_state started \<noteq> OTA_STATE_IDLE
   \<and> fst (ota_start_update None True started) \<noteq> ESP_ERR_INVALID_STATE"
  by (simp add: started_eval ota_start_update_def)

text \<open>
  C2, amended. A call of \<^verbatim>\<open>ota_start_update\<close> with a non-null configuration made while
  the state is not Idle returns \<^verbatim>\<open>ESP_ERR_INVALID_STATE\<close> and leaves the whole module as
  it was: statistics, state, cancel flag, and no task is created. With a null configuration the
  call returns \<^verbatim>\<open>ESP_ERR_INVALID_ARG\<close> and changes nothing either.
\<close>

theorem start_when_busy:
  assumes "current_state m \<noteq> OTA_STATE_IDLE"
  shows "ota_start_update (Some cfg) task_created m = (ESP_ERR_INVALID_STATE, m)
         \<and> ota_start_update None task_created m = (ESP_ERR_INVALID_ARG, m)"
  using assms by (simp add: ota_start_update_def)

text \<open>Witness for C2: a second start while the first update is downloading.\<close>

theorem start_when_busy_witness:
  "current_state started \<noteq> OTA_STATE_IDLE
   \<and> ota_start_update (Some zero_config) True started = (ESP_ERR_INVALID_STATE, started)
   \<and> ota_start_update None True started = (ESP_ERR_INVALID_ARG, started)"
proof -
  have h: "current_state started \<noteq> OTA_STATE_IDLE"
    by (simp add: started_eval)
  from start_when_busy [OF h, of zero_config True] h show ?thesis by simp
qed

subsection \<open>Cancelling\<close>

lemma fail_facts [simp]:
  "last_result (ota_stats (ota_fail r m)) = r"
  "failed_updates (ota_stats (ota_fail r m)) = failed_updates (ota_stats m) + 1"
  "flash_writes (ota_fail r m) = flash_writes m"
  "state_trace (ota_fail r m) = state_trace m @ [OTA_STATE_ERROR]"
  "cancel_requested (ota_fail r m) = cancel_requested m"
  by (simp_all add: ota_fail_def set_current_state_def Let_def)

lemma finish_after_error:
  "current_state m = OTA_STATE_ERROR \<Longrightarrow> ota_finish env ctx m = Running (m\<lparr>ota_task_handle := False\<rparr>)"
  by (simp add: ota_finish_def ota_end_def)

lemma loop_cancelled:
  "cancel_requested m \<Longrightarrow>
   ota_loop env ios ctx d m = Loop_exit ctx d (ota_fail OTA_RESULT_DOWNLOAD_ERROR m)"
  by (cases ios) simp_all

lemma from_loop_cancelled:
  "cancel_requested m \<Longrightarrow>
   ota_from_loop env ios ctx d m = Running ((ota_fail OTA_RESULT_DOWNLOAD_ERROR m)\<lparr>ota_task_handle := False\<rparr>)"
  by (simp add: ota_from_loop_def loop_cancelled finish_after_error)

text \<open>
  C3. \<^verbatim>\<open>ota_cancel_update\<close> returns \<^verbatim>\<open>ESP_ERR_INVALID_STATE\<close> exactly when the state
  is none of Downloading, Verifying and Installing, and then changes nothing; otherwise it sets
  the cancel flag and returns \<^verbatim>\<open>ESP_OK\<close>. When the flag is set as the loop samples it, before
  a read, the worker ends (the task deletes itself) with state Error and last result
  DownloadError, and the failed counter is one higher.
\<close>

theorem cancel_request_honoured:
  "(fst (ota_cancel_update m) = ESP_ERR_INVALID_STATE) =
      (current_state m \<noteq> OTA_STATE_DOWNLOADING \<and> current_state m \<noteq> OTA_STATE_VERIFYING
       \<and> current_state m \<noteq> OTA_STATE_INSTALLING)
   \<and> (fst (ota_cancel_update m) = ESP_ERR_INVALID_STATE \<longrightarrow> snd (ota_cancel_update m) = m)
   \<and> (fst (ota_cancel_update m) \<noteq> ESP_ERR_INVALID_STATE \<longrightarrow>
         ota_cancel_update m = (ESP_OK, m\<lparr>cancel_requested := True\<rparr>))
   \<and> (cancel_requested m \<longrightarrow>
         ota_from_loop env ios ctx d m
           = Running ((ota_fail OTA_RESULT_DOWNLOAD_ERROR m)\<lparr>ota_task_handle := False\<rparr>)
         \<and> current_state (module_of (ota_from_loop env ios ctx d m)) = OTA_STATE_ERROR
         \<and> last_result (ota_stats (module_of (ota_from_loop env ios ctx d m)))
             = OTA_RESULT_DOWNLOAD_ERROR
         \<and> failed_updates (ota_stats (module_of (ota_from_loop env ios ctx d m)))
             = failed_updates (ota_stats m) + 1)"
proof -
  have a: "(fst (ota_cancel_update m) = ESP_ERR_INVALID_STATE) =
      (current_state m \<noteq> OTA_STATE_DOWNLOADING \<and> current_state m \<noteq> OTA_STATE_VERIFYING
       \<and> current_state m \<noteq> OTA_STATE_INSTALLING)"
    by (cases "current_state m") (simp_all add: ota_cancel_update_def ota_is_updating_def)
  have b: "fst (ota_cancel_update m) = ESP_ERR_INVALID_STATE \<longrightarrow> snd (ota_cancel_update m) = m"
    by (simp add: ota_cancel_update_def)
  have c: "fst (ota_cancel_update m) \<noteq> ESP_ERR_INVALID_STATE \<longrightarrow>
         ota_cancel_update m = (ESP_OK, m\<lparr>cancel_requested := True\<rparr>)"
    by (simp add: ota_cancel_update_def)
  have d: "cancel_requested m \<longrightarrow>
         ota_from_loop env ios ctx d m
           = Running ((ota_fail OTA_RESULT_DOWNLOAD_ERROR m)\<lparr>ota_task_handle := False\<rparr>)
         \<and> current_state (module_of (ota_from_loop env ios ctx d m)) = OTA_STATE_ERROR
         \<and> last_result (ota_stats (module_of (ota_from_loop env ios ctx d m)))
             = OTA_RESULT_DOWNLOAD_ERROR
         \<and> failed_updates (ota_stats (module_of (ota_from_loop env ios ctx d m)))
             = failed_updates (ota_stats m) + 1"
    by (simp add: from_loop_cancelled)
  from a b c d show ?thesis by blast
qed

text \<open>
  A cancel called while the worker waits in a read is seen at the next sample: the flag
  survives the rest of the pass.
\<close>

lemma cancel_requested_chunk_progress:
  "ota_chunk_progress ctx d m = Next_iteration c' d' m' \<Longrightarrow> cancel_requested m' = cancel_requested m"
  by (auto simp: ota_chunk_progress_def ota_update_progress_def set_current_state_def Let_def
      split: if_splits)

lemma cancel_requested_chunk:
  "ota_chunk env io ctx d m = Next_iteration c' d' m' \<Longrightarrow> cancel_requested m' = cancel_requested m"
  by (auto simp: ota_chunk_def Let_def split: if_splits dest!: cancel_requested_chunk_progress)

lemma cancel_sticks_step:
  "current_state m \<noteq> OTA_STATE_IDLE \<Longrightarrow> cancel_requested m \<Longrightarrow> cancel_requested (api_step c m)"
  by (cases c) (auto simp: ota_start_update_def ota_cancel_update_def ota_reset_statistics_def
        ota_update_init_def split: option.splits)

lemma cancel_sticks:
  "current_state m \<noteq> OTA_STATE_IDLE \<Longrightarrow> cancel_requested m \<Longrightarrow> cancel_requested (api_steps cs m)"
proof (induction cs arbitrary: m)
  case Nil
  then show ?case by simp
next
  case (Cons c cs)
  from api_step_busy [OF Cons.prems(1), of c] Cons.prems(1)
  have "current_state (api_step c m) \<noteq> OTA_STATE_IDLE" by simp
  from Cons.IH [OF this cancel_sticks_step [OF Cons.prems]] show ?case by simp
qed

lemma cancel_call_sets_flag:
  "ota_is_updating m \<Longrightarrow> Call_cancel \<in> set cs \<Longrightarrow> cancel_requested (api_steps cs m)"
proof (induction cs arbitrary: m)
  case Nil
  then show ?case by simp
next
  case (Cons c cs)
  from Cons.prems(1) have busy: "current_state m \<noteq> OTA_STATE_IDLE"
    by (simp add: ota_is_updating_def)
  from api_step_busy [OF busy, of c] Cons.prems(1)
  have upd: "ota_is_updating (api_step c m)" by (simp add: ota_is_updating_def)
  show ?case
  proof (cases "c = Call_cancel")
    case True
    with Cons.prems(1) have "cancel_requested (api_step c m)"
      by (simp add: ota_cancel_update_def)
    from cancel_sticks [OF _ this, of cs] upd show ?thesis
      by (simp add: ota_is_updating_def)
  next
    case False
    with Cons.prems(2) have "Call_cancel \<in> set cs" by simp
    from Cons.IH [OF upd this] show ?thesis by simp
  qed
qed

lemma cancel_during_pass:
  assumes "\<not> cancel_requested m" "ota_is_updating m" "Call_cancel \<in> set (calls io)"
      and "ota_chunk env io ctx d (api_steps (calls io) m) = Next_iteration ctx' d' m'"
  shows "ota_from_loop env (io # rest) ctx d m
           = Running ((ota_fail OTA_RESULT_DOWNLOAD_ERROR m')\<lparr>ota_task_handle := False\<rparr>)"
proof -
  from cancel_call_sets_flag [OF assms(2,3)] cancel_requested_chunk [OF assms(4)]
  have "cancel_requested m'" by simp
  from from_loop_cancelled [OF this, of env rest ctx' d'] assms(1,4) show ?thesis
    by (simp add: ota_from_loop_def)
qed

text \<open>
  Witness for C3: a cancel before any start is refused; a cancel after an accepted start sets
  the flag, and the loop entered with it ends the update in Error with DownloadError and one
  failure counted.
\<close>

theorem cancel_request_honoured_witness:
  "ota_cancel_update ota_boot = (ESP_ERR_INVALID_STATE, ota_boot)
   \<and> ota_cancel_update started = (ESP_OK, started\<lparr>cancel_requested := True\<rparr>)
   \<and> cancel_requested (snd (ota_cancel_update started))
   \<and> current_state (module_of (ota_from_loop idf_env [short_chunk]
        \<lparr>config = zero_config, binary_file_length = 400, image_header_was_checked = False,
         new_app_version = []\<rparr> 0 (snd (ota_cancel_update started)))) = OTA_STATE_ERROR
   \<and> last_result (ota_stats (module_of (ota_from_loop idf_env [short_chunk]
        \<lparr>config = zero_config, binary_file_length = 400, image_header_was_checked = False,
         new_app_version = []\<rparr> 0 (snd (ota_cancel_update started))))) = OTA_RESULT_DOWNLOAD_ERROR
   \<and> failed_updates (ota_stats (module_of (ota_from_loop idf_env [short_chunk]
        \<lparr>config = zero_config, binary_file_length = 400, image_header_was_checked = False,
         new_app_version = []\<rparr> 0 (snd (ota_cancel_update started))))) = 1"
proof -
  have h0: "fst (ota_cancel_update ota_boot) = ESP_ERR_INVALID_STATE"
    by (simp add: ota_cancel_update_def ota_is_updating_def ota_boot_def)
  have h1: "fst (ota_cancel_update started) \<noteq> ESP_ERR_INVALID_STATE"
    by (simp add: ota_cancel_update_def ota_is_updating_def started_eval)
  have h2: "cancel_requested (snd (ota_cancel_update started))"
    by (simp add: ota_cancel_update_def ota_is_updating_def started_eval)
  have f: "failed_updates (ota_stats (snd (ota_cancel_update started))) = 0"
    by (simp add: ota_cancel_update_def ota_is_updating_def started_eval zero_statistics_def)
  from cancel_request_honoured [of ota_boot] h0 have a: "ota_cancel_update ota_boot = (ESP_ERR_INVALID_STATE, ota_boot)"
    by (simp add: prod_eq_iff)
  from cancel_request_honoured [of started] h1 have b: "ota_cancel_update started = (ESP_OK, started\<lparr>cancel_requested := True\<rparr>)"
    by simp
  from cancel_request_honoured [of "snd (ota_cancel_update started)" idf_env "[short_chunk]"
       "\<lparr>config = zero_config, binary_file_length = 400, image_header_was_checked = False,
         new_app_version = []\<rparr>" 0] h2 f a b
  show ?thesis by simp
qed

subsection \<open>The header check\<close>







text \<open>
  The comparison covers the whole version array: a chunk whose version is the same C string as
  the running one but differs after the terminating NUL passes the check and is written.
\<close>

lemma same_string_other_padding:
  "strncpy_str (version_in idf_env (ota_write_data padded_version_chunk)) 31
     = strncpy_str (running_version idf_env) 31"
  "ota_chunk idf_env padded_version_chunk
     \<lparr>config = zero_config, binary_file_length = 400, image_header_was_checked = False,
      new_app_version = []\<rparr> 0 started
   = Next_iteration
       \<lparr>config = zero_config, binary_file_length = 400, image_header_was_checked = True,
        new_app_version = ''1.0.0'' @ [NUL] @ replicate 26 (CHR ''p'')\<rparr> 300
       (started\<lparr>current_progress := 75,
                 flash_writes := [ota_write_data padded_version_chunk]\<rparr>)"
proof -
  have ne: "CHR 0x00 # replicate 26 (CHR ''p'') \<noteq> replicate 27 (CHR 0x00)"
    by (simp add: eval_nat_numeral)
  show "strncpy_str (version_in idf_env (ota_write_data padded_version_chunk)) 31
     = strncpy_str (running_version idf_env) 31"
    by (simp add: ota_eval sample_eval padded_version_chunk_def)
  show "ota_chunk idf_env padded_version_chunk
     \<lparr>config = zero_config, binary_file_length = 400, image_header_was_checked = False,
      new_app_version = []\<rparr> 0 started
   = Next_iteration
       \<lparr>config = zero_config, binary_file_length = 400, image_header_was_checked = True,
        new_app_version = ''1.0.0'' @ [NUL] @ replicate 26 (CHR ''p'')\<rparr> 300
       (started\<lparr>current_progress := 75,
                 flash_writes := [ota_write_data padded_version_chunk]\<rparr>)"
    using ne by (simp add: started_eval ota_eval sample_eval padded_version_chunk_def)
qed

text \<open>
  The same chunk after a chunk of 100 bytes: the short chunk is written, the long one is the
  first to be checked and is rejected.
\<close>

lemma same_version_after_short_chunk:
  "ota_task (idf_env\<lparr>reads := [short_chunk, same_version_chunk, end_of_file]\<rparr>) started
     = Running (started\<lparr>current_state := OTA_STATE_ERROR, current_progress := 25,
          ota_task_handle := False,
          ota_stats := zero_statistics\<lparr>total_updates := 1, failed_updates := 1,
                                       last_result := OTA_RESULT_VERIFY_ERROR\<rparr>,
          state_trace := [OTA_STATE_IDLE, OTA_STATE_DOWNLOADING, OTA_STATE_DOWNLOADING,
                          OTA_STATE_ERROR],
          flash_writes := [replicate 100 (CHR ''s'')]\<rparr>)"
  by (simp add: started_eval ota_eval sample_eval)

text \<open>
  C9 asks that a first chunk too short for the descriptor end the update with Error of kind
  DownloadError and a failure counted. The loop has no branch for such a chunk: the size
  test fails, the header check is skipped and the chunk is written like any other. A first
  chunk of 100 bytes followed by the end of the source ends the update in Success with the
  100 bytes written, no failure counted and SUCCESS as last result.
\<close>

theorem short_first_chunk_is_no_error:
  "data_read short_chunk \<le> int (descriptor_end idf_env)
   \<and> ota_task (idf_env\<lparr>reads := [short_chunk, end_of_file]\<rparr>) started
     = Running (started\<lparr>current_state := OTA_STATE_SUCCESS, current_progress := 100,
          ota_task_handle := False,
          ota_stats := zero_statistics\<lparr>total_updates := 1, successful_updates := 1,
                                       last_update_time := 60,
                                       last_result := OTA_RESULT_SUCCESS\<rparr>,
          state_trace := [OTA_STATE_IDLE, OTA_STATE_DOWNLOADING, OTA_STATE_DOWNLOADING,
                          OTA_STATE_VERIFYING, OTA_STATE_VERIFYING, OTA_STATE_INSTALLING,
                          OTA_STATE_INSTALLING, OTA_STATE_SUCCESS, OTA_STATE_SUCCESS],
          flash_writes := [replicate 100 (CHR ''s'')]\<rparr>)"
  by (simp add: started_eval ota_eval sample_eval)

text \<open>
  The same holds of every chunk too short for the descriptor that is read while the header has
  not been checked: the header stays unchecked, the chunk is handed to \<^verbatim>\<open>esp_ota_write\<close>,
  the statistics are unchanged and the loop goes on (given that the write succeeds, the
  content length is not zero and the percentage does not overflow).
\<close>

lemma short_chunk_is_written:
  assumes "0 < data_read io" "data_read io \<le> int (descriptor_end env)"
      and "\<not> image_header_was_checked ctx"
      and "write_ok io"
      and "binary_file_length ctx \<noteq> 0"
      and "(downloaded + data_read io) * 100 \<le> INT_MAX"
  shows "\<exists>m'. ota_chunk env io ctx downloaded m = Next_iteration ctx (downloaded + data_read io) m'
           \<and> ota_stats m' = ota_stats m
           \<and> flash_writes m' = flash_writes m @ [take (nat (data_read io)) (ota_write_data io)]
           \<and> (current_state m = OTA_STATE_DOWNLOADING \<longrightarrow> current_state m' = OTA_STATE_DOWNLOADING)"
proof -
  from assms(6) have "\<not> downloaded + data_read io > INT_MAX"
    by (simp add: INT_MAX_def)
  with assms show ?thesis
    by (simp add: ota_chunk_def ota_chunk_progress_def ota_update_progress_def
        set_current_state_def Let_def)
qed

text \<open>
  What the missing branch costs: after a short first chunk the version is looked for at
  bytes 48 to 79 of the next long chunk, which are not those of the descriptor. One and the
  same image of the running version is rejected with VerifyError when it arrives as
  1024 + 376 bytes, and written whole and made the boot image when it arrives as
  100 + 1024 + 276 bytes.
\<close>

lemma same_image_other_chunks:
  "version_in idf_env same_version_image = take (sizeof_version idf_env) (running_version idf_env)"
  "ota_task (idf_env\<lparr>fetch_headers_result := 1400,
        reads := reads_of [1024, 376] same_version_image\<rparr>) started
     = Running (started\<lparr>current_state := OTA_STATE_ERROR, ota_task_handle := False,
          ota_stats := zero_statistics\<lparr>total_updates := 1, failed_updates := 1,
                                       last_result := OTA_RESULT_VERIFY_ERROR\<rparr>,
          state_trace := [OTA_STATE_IDLE, OTA_STATE_DOWNLOADING, OTA_STATE_DOWNLOADING,
                          OTA_STATE_ERROR]\<rparr>)"
  "current_state (module_of (ota_task (idf_env\<lparr>fetch_headers_result := 1400,
        reads := reads_of [100, 1024, 276] same_version_image\<rparr>) started)) = OTA_STATE_SUCCESS"
  "failed_updates (ota_stats (module_of (ota_task (idf_env\<lparr>fetch_headers_result := 1400,
        reads := reads_of [100, 1024, 276] same_version_image\<rparr>) started))) = 0"
  "concat (flash_writes (module_of (ota_task (idf_env\<lparr>fetch_headers_result := 1400,
        reads := reads_of [100, 1024, 276] same_version_image\<rparr>) started)))
     = same_version_image"
proof -
  have ne: "replicate 32 (CHR ''d'') \<noteq> CHR ''1'' # cs" for cs
    by (simp add: eval_nat_numeral)
  show "version_in idf_env same_version_image = take (sizeof_version idf_env) (running_version idf_env)"
    by (simp add: ota_eval sample_eval same_version_image_def)
  show "ota_task (idf_env\<lparr>fetch_headers_result := 1400,
        reads := reads_of [1024, 376] same_version_image\<rparr>) started
     = Running (started\<lparr>current_state := OTA_STATE_ERROR, ota_task_handle := False,
          ota_stats := zero_statistics\<lparr>total_updates := 1, failed_updates := 1,
                                       last_result := OTA_RESULT_VERIFY_ERROR\<rparr>,
          state_trace := [OTA_STATE_IDLE, OTA_STATE_DOWNLOADING, OTA_STATE_DOWNLOADING,
                          OTA_STATE_ERROR]\<rparr>)"
    by (simp add: started_eval ota_eval sample_eval same_version_image_def)
  show "current_state (module_of (ota_task (idf_env\<lparr>fetch_headers_result := 1400,
        reads := reads_of [100, 1024, 276] same_version_image\<rparr>) started)) = OTA_STATE_SUCCESS"
    using ne by (simp add: started_eval ota_eval sample_eval same_version_image_def)
  show "failed_updates (ota_stats (module_of (ota_task (idf_env\<lparr>fetch_headers_result := 1400,
        reads := reads_of [100, 1024, 276] same_version_image\<rparr>) started))) = 0"
    using ne by (simp add: started_eval ota_eval sample_eval same_version_image_def)
  show "concat (flash_writes (module_of (ota_task (idf_env\<lparr>fetch_headers_result := 1400,
        reads := reads_of [100, 1024, 276] same_version_image\<rparr>) started)))
     = same_version_image"
    using ne by (simp add: started_eval ota_eval sample_eval same_version_image_def
        replicate_add [symmetric])
qed

subsection \<open>The content length\<close>

lemma chunk_progress_no_div0:
  "binary_file_length ctx \<noteq> 0 \<Longrightarrow> ota_chunk_progress ctx d m \<noteq> Chunk_undefined Division_by_zero m'"
  by (simp add: ota_chunk_progress_def Let_def)

lemma chunk_progress_keeps_ctx:
  "ota_chunk_progress ctx d m = Next_iteration ctx' d' m' \<Longrightarrow> ctx' = ctx"
  by (auto simp: ota_chunk_progress_def Let_def split: if_splits)

text \<open>
  The header counts as checked only once a chunk longer than the three headers has passed the
  comparison; until then every pass finds it unchecked.
\<close>

lemma header_checked_by_long_chunk:
  assumes "ota_chunk env io ctx d m = Next_iteration ctx' d' m'"
      and "\<not> image_header_was_checked ctx"
  shows "image_header_was_checked ctx' = (int (descriptor_end env) < data_read io)"
proof -
  have k: "image_header_was_checked c' = image_header_was_checked c"
    if "ota_chunk_progress c x y = Next_iteration c' d' m'" for c c' x y
    using chunk_progress_keeps_ctx [OF that] by simp
  from assms show ?thesis
    by (auto simp: ota_chunk_def Let_def split: if_splits dest!: k)
qed

lemma chunk_no_div0:
  "binary_file_length ctx \<noteq> 0 \<Longrightarrow> ota_chunk env io ctx d m \<noteq> Chunk_undefined Division_by_zero m'"
  by (simp add: ota_chunk_def Let_def chunk_progress_no_div0)

lemma chunk_keeps_length:
  "ota_chunk env io ctx d m = Next_iteration ctx' d' m' \<Longrightarrow>
   binary_file_length ctx' = binary_file_length ctx"
  by (auto simp: ota_chunk_def Let_def split: if_splits dest!: chunk_progress_keeps_ctx)

lemma loop_no_div0:
  "binary_file_length ctx \<noteq> 0 \<Longrightarrow> ota_loop env ios ctx d m \<noteq> Loop_undefined Division_by_zero m'"
proof (induction ios arbitrary: ctx d m)
  case Nil
  then show ?case by simp
next
  case (Cons io rest)
  show ?case
  proof (cases "ota_chunk env io ctx d (api_steps (calls io) m)")
    case (Next_iteration c1 d1 m1)
    from chunk_keeps_length [OF this] Cons.prems have "binary_file_length c1 \<noteq> 0" by simp
    from Cons.IH [OF this] Next_iteration show ?thesis by simp
  next
    case (Break c1 d1 m1)
    then show ?thesis by simp
  next
    case (Chunk_undefined ub m1)
    with chunk_no_div0 [OF Cons.prems, of env io d "api_steps (calls io) m" m1]
    have "ub \<noteq> Division_by_zero \<or> m1 \<noteq> m'" by auto
    with Chunk_undefined show ?thesis by auto
  qed
qed

lemma finish_not_undefined: "ota_finish env ctx m \<noteq> Halted (Undefined ub) m'"
  by (simp add: ota_finish_def ota_end_def Let_def)

lemma from_loop_no_div0:
  "binary_file_length ctx \<noteq> 0 \<Longrightarrow>
   ota_from_loop env ios ctx d m \<noteq> Halted (Undefined Division_by_zero) m'"
  using loop_no_div0 [of ctx env ios d m m']
  by (cases "ota_loop env ios ctx d m") (auto simp: ota_from_loop_def finish_not_undefined)

text \<open>
  C8 asks that a content length that is not positive end the worker in Error before the loop,
  so that the percentage is never computed with a total of zero. The code tests
  \<^verbatim>\<open>content_length < 0\<close> only. With a reported length of 0 the worker enters the loop,
  writes the first chunk and computes \<^verbatim>\<open>(binary_file_downloaded * 100) / 0\<close>; the state is
  still Downloading and no failure is counted. A reported length of \<open>2\<^sup>3\<^sup>2\<close> does the same,
  since the conversion to \<^verbatim>\<open>int\<close> makes it 0.
\<close>

theorem zero_content_length_divides_by_zero:
  "ota_task (idf_env\<lparr>fetch_headers_result := 0, reads := [short_chunk]\<rparr>) started
     = Halted (Undefined Division_by_zero)
         (started\<lparr>state_trace := [OTA_STATE_IDLE, OTA_STATE_DOWNLOADING, OTA_STATE_DOWNLOADING],
                   flash_writes := [replicate 100 (CHR ''s'')]\<rparr>)
   \<and> int_of_int64 4294967296 = 0
   \<and> ota_task (idf_env\<lparr>fetch_headers_result := 4294967296, reads := [short_chunk]\<rparr>) started
     = Halted (Undefined Division_by_zero)
         (started\<lparr>state_trace := [OTA_STATE_IDLE, OTA_STATE_DOWNLOADING, OTA_STATE_DOWNLOADING],
                   flash_writes := [replicate 100 (CHR ''s'')]\<rparr>)"
  by (simp add: started_eval ota_eval sample_eval)

text \<open>
  The parts of C8 that hold, in a worker that reaches the connection open: a failed open ends
  it with state Error and last result NetworkError, and a content length that is negative as
  an \<^verbatim>\<open>int\<close> with last result DownloadError, both before the loop (nothing is written); and
  with a content length that is positive as an \<^verbatim>\<open>int\<close> the percentage computation does not
  divide by zero.
\<close>

lemma content_length_guard:
  assumes "http_client_init_ok env" "update_partition_found env" "ota_begin_ok env"
  shows "(\<not> http_open_ok env \<longrightarrow>
            ota_task env m = Running ((ota_fail OTA_RESULT_NETWORK_ERROR
               (api_steps (calls_on_open env) (ota_update_progress 0 OTA_STATE_DOWNLOADING m)))
               \<lparr>ota_task_handle := False\<rparr>))
         \<and> (http_open_ok env \<and> int_of_int64 (fetch_headers_result env) < 0 \<longrightarrow>
            ota_task env m = Running ((ota_fail OTA_RESULT_DOWNLOAD_ERROR
               (api_steps (calls_on_open env) (ota_update_progress 0 OTA_STATE_DOWNLOADING m)))
               \<lparr>ota_task_handle := False\<rparr>))
         \<and> (\<not> http_open_ok env \<or> int_of_int64 (fetch_headers_result env) < 0 \<longrightarrow>
            current_state (module_of (ota_task env m)) = OTA_STATE_ERROR
            \<and> flash_writes (module_of (ota_task env m)) = flash_writes m)
         \<and> (0 < int_of_int64 (fetch_headers_result env) \<longrightarrow>
            (\<forall>m'. ota_task env m \<noteq> Halted (Undefined Division_by_zero) m'))"
proof -
  have a: "\<not> http_open_ok env \<Longrightarrow>
            ota_task env m = Running ((ota_fail OTA_RESULT_NETWORK_ERROR
               (api_steps (calls_on_open env) (ota_update_progress 0 OTA_STATE_DOWNLOADING m)))
               \<lparr>ota_task_handle := False\<rparr>)"
    using assms by (simp add: ota_task_def ota_end_def Let_def)
  have b: "http_open_ok env \<and> int_of_int64 (fetch_headers_result env) < 0 \<Longrightarrow>
            ota_task env m = Running ((ota_fail OTA_RESULT_DOWNLOAD_ERROR
               (api_steps (calls_on_open env) (ota_update_progress 0 OTA_STATE_DOWNLOADING m)))
               \<lparr>ota_task_handle := False\<rparr>)"
    using assms by (simp add: ota_task_def ota_end_def Let_def)
  have w: "flash_writes (ota_update_progress 0 OTA_STATE_DOWNLOADING m) = flash_writes m"
    by (simp add: ota_update_progress_def set_current_state_def)
  have c: "\<not> http_open_ok env \<or> int_of_int64 (fetch_headers_result env) < 0 \<Longrightarrow>
            current_state (module_of (ota_task env m)) = OTA_STATE_ERROR
            \<and> flash_writes (module_of (ota_task env m)) = flash_writes m"
    using a b w by (cases "http_open_ok env") simp_all
  have d: "ota_task env m \<noteq> Halted (Undefined Division_by_zero) m'"
    if "0 < int_of_int64 (fetch_headers_result env)" for m'
    using that assms
    by (simp add: ota_task_def ota_end_def Let_def from_loop_no_div0)
  from a b c d show ?thesis by blast
qed

section \<open>Properties of the dispatcher\<close>

subsection \<open>Parsing\<close>

lemmas parse_eval = parse_command_def WATER_ZH_def NUL_def eval_nat_numeral

text \<open>
  C5. The comparison is \<^verbatim>\<open>strncmp\<close> over the length of the input, so an input that is the
  beginning of a literal is taken for that literal: the one byte \<open>W\<close> is parsed as the
  watering command, where the claim requires \<open>Unknown\<close> for every input that is not one of the
  literals.
\<close>

theorem parse_accepts_prefix:
  "parse_command (Some ''W'') 1 = CMD_WATER"
  by (simp add: parse_eval)

text \<open>The parts of C5 that hold: the literals, the unknown text, the empty and the null input.\<close>

lemma parse_literals:
  "parse_command (Some ''WATER'') 5 = CMD_WATER"
  "parse_command (Some WATER_ZH) 6 = CMD_WATER"
  "parse_command (Some ''GET_STATUS'') 10 = CMD_GET_STATUS"
  "parse_command (Some ''GET_READING'') 11 = CMD_GET_READING"
  "parse_command (Some ''OTA_UPDATE'') 10 = CMD_OTA_UPDATE"
  "parse_command (Some ''OTA_STATUS'') 10 = CMD_OTA_STATUS"
  "parse_command (Some ''OTA_CANCEL'') 10 = CMD_OTA_CANCEL"
  by (simp_all add: parse_eval)

lemma parse_unknown:
  "parse_command (Some ''unknown-xyz'') 11 = CMD_UNKNOWN"
  "parse_command (Some []) 0 = CMD_UNKNOWN"
  "parse_command None n = CMD_UNKNOWN"
  by (simp_all add: parse_eval)

lemma parse_other_prefixes:
  "parse_command (Some ''G'') 1 = CMD_GET_STATUS"
  "parse_command (Some ''OTA_'') 4 = CMD_OTA_UPDATE"
  by (simp_all add: parse_eval)

subsection \<open>The command queue\<close>

lemma run_firmware_invariant:
  assumes "P fw" and step: "\<And>e fw. P fw \<Longrightarrow> P (firmware_of (firmware_step e fw))"
  shows "P (firmware_of (run_firmware es fw))"
  using assms(1)
proof (induction es arbitrary: fw)
  case Nil
  then show ?case by simp
next
  case (Cons e es)
  from step [OF Cons.prems, of e] Cons.IH show ?case
    by (cases "firmware_step e fw") simp_all
qed

lemma queue_bounded_boot: "queue_bounded firmware_boot"
  by (simp add: queue_bounded_def firmware_boot_def dispatcher_boot_def)

lemma execute_command_queue:
  "command_queue (disp (snd (execute_command io c fw))) = command_queue (disp fw)"
  by (cases "type c") (simp_all add: execute_command_def execute_water_command_def split: prod.splits)

lemma handler_queue:
  "command_queue (disp (command_handler_task io fw)) =
     (case command_queue (disp fw) of
        Queue q \<Rightarrow> if handler_task_created (disp fw) then Queue (q\<lparr>waiting := tl (waiting q)\<rparr>) else Queue q
      | Queue_null \<Rightarrow> Queue_null | Queue_deleted \<Rightarrow> Queue_deleted)"
proof (cases "command_queue (disp fw)")
  case (Queue q)
  show ?thesis
  proof (cases "waiting q")
    case Nil
    with Queue show ?thesis by (simp add: command_handler_task_def xQueueReceive_def)
  next
    case (Cons c cs)
    let ?fw = "fw\<lparr>disp := (disp fw)\<lparr>command_queue := Queue (q\<lparr>waiting := cs\<rparr>)\<rparr>\<rparr>"
    obtain r fw1 where e: "execute_command io c ?fw = (r, fw1)"
      by (cases "execute_command io c ?fw")
    from execute_command_queue [of io c ?fw] e
    have "command_queue (disp fw1) = Queue (q\<lparr>waiting := cs\<rparr>)" by simp
    with Queue Cons e show ?thesis
      by (simp add: command_handler_task_def xQueueReceive_def)
  qed
qed (simp_all add: command_handler_task_def)

lemma queue_bounded_step: "queue_bounded fw \<Longrightarrow> queue_bounded (firmware_of (firmware_step e fw))"
proof (cases e)
  case (Init_command_handler a b c)
  then show ?thesis
    by (simp add: queue_bounded_def command_handler_init_def xQueueCreate_def)
next
  case (Init_ota_update v)
  assume "queue_bounded fw"
  with Init_ota_update show ?thesis by (simp add: queue_bounded_def)
next
  case (Transport ev now)
  assume "queue_bounded fw"
  with Transport show ?thesis
    by (cases ev)
       (auto simp: queue_bounded_def enqueue_command_def xQueueSend_def Let_def
          split: queue_handle.splits sum.splits if_splits prod.splits)
next
  case (Handler_pass io)
  assume "queue_bounded fw"
  with Handler_pass handler_queue [of io fw] show ?thesis
    by (auto simp: queue_bounded_def split: queue_handle.splits if_splits)
next
  case (Download env)
  assume "queue_bounded fw"
  with Download show ?thesis
    by (auto simp: queue_bounded_def split: run.splits)
qed

lemma queue_bounded_run: "queue_bounded (firmware_of (run_firmware es firmware_boot))"
  using queue_bounded_boot queue_bounded_step by (rule run_firmware_invariant)

text \<open>
  C6. In every state the firmware reaches, the command queue, once created, has length 10
  and holds at most 10 commands. \<^verbatim>\<open>enqueue_command\<close> on a queue holding 10 returns
  \<^verbatim>\<open>ESP_ERR_TIMEOUT\<close> (the Busy of the specification) and changes nothing; on a queue
  holding fewer it returns \<^verbatim>\<open>ESP_OK\<close> and puts the command behind those waiting. The
  worker receives the oldest command first.
\<close>

theorem command_queue_capacity:
  assumes "command_queue (disp (firmware_of (run_firmware es firmware_boot))) = Queue q"
  shows "uxLength q = 10 \<and> length (waiting q) \<le> 10
     \<and> (length (waiting q) = 10 \<longrightarrow>
          enqueue_command cmd_type dat now (disp (firmware_of (run_firmware es firmware_boot)))
            = Inr (ESP_ERR_TIMEOUT, disp (firmware_of (run_firmware es firmware_boot))))
     \<and> (length (waiting q) < 10 \<longrightarrow>
          enqueue_command cmd_type dat now (disp (firmware_of (run_firmware es firmware_boot)))
            = Inr (ESP_OK, (disp (firmware_of (run_firmware es firmware_boot)))
                \<lparr>command_queue := Queue (q\<lparr>waiting := waiting q @
                   [\<lparr>type = cmd_type,
                     data = (case dat of None \<Rightarrow> [] | Some s \<Rightarrow> strncpy_str s 63),
                     timestamp = now\<rparr>]\<rparr>)\<rparr>))
     \<and> (waiting q \<noteq> [] \<longrightarrow>
          xQueueReceive q = Some (hd (waiting q), q\<lparr>waiting := tl (waiting q)\<rparr>))"
proof -
  from queue_bounded_run [of es] assms
  have b: "uxLength q = 10" "length (waiting q) \<le> 10"
    by (simp_all add: queue_bounded_def COMMAND_QUEUE_SIZE_def)
  have r: "waiting q \<noteq> [] \<longrightarrow>
          xQueueReceive q = Some (hd (waiting q), q\<lparr>waiting := tl (waiting q)\<rparr>)"
    by (cases "waiting q") (simp_all add: xQueueReceive_def)
  from b r assms show ?thesis
    by (simp add: enqueue_command_def xQueueSend_def Let_def)
qed

lemmas dispatcher_eval =
  firmware_boot_def dispatcher_boot_def command_handler_init_def xQueueCreate_def xQueueSend_def
  xQueueReceive_def enqueue_command_def COMMAND_QUEUE_SIZE_def water_message_def
  ota_update_message_def failing_publisher_def execute_command_def
  execute_ota_update_command_def send_mqtt_response_def strlen_def Let_def

lemma full_queue_run_eval:
  "command_queue (disp (firmware_of (run_firmware full_queue_run firmware_boot)))
     = Queue \<lparr>uxLength = 10, waiting = replicate 10 \<lparr>type = CMD_WATER, data = [], timestamp = 7\<rparr>\<rparr>"
  by (simp add: full_queue_run_def dispatcher_eval parse_eval)

lemma empty_queue_run_eval:
  "command_queue (disp (firmware_of (run_firmware [Init_command_handler True True True] firmware_boot)))
     = Queue \<lparr>uxLength = 10, waiting = []\<rparr>"
  by (simp add: dispatcher_eval)

text \<open>
  Witness for C6: after ten watering commands with no pass of the worker the eleventh is
  refused; on the empty queue a command is accepted.
\<close>

theorem command_queue_capacity_witness:
  "command_queue (disp (firmware_of (run_firmware full_queue_run firmware_boot)))
     = Queue \<lparr>uxLength = 10, waiting = replicate 10 \<lparr>type = CMD_WATER, data = [], timestamp = 7\<rparr>\<rparr>
   \<and> enqueue_command CMD_WATER None 8 (disp (firmware_of (run_firmware full_queue_run firmware_boot)))
     = Inr (ESP_ERR_TIMEOUT, disp (firmware_of (run_firmware full_queue_run firmware_boot)))
   \<and> enqueue_command CMD_GET_STATUS (Some ''now'') 8
        (disp (firmware_of (run_firmware [Init_command_handler True True True] firmware_boot)))
     = Inr (ESP_OK, (disp (firmware_of (run_firmware [Init_command_handler True True True] firmware_boot)))
          \<lparr>command_queue := Queue \<lparr>uxLength = 10,
               waiting = [\<lparr>type = CMD_GET_STATUS, data = ''now'', timestamp = 8\<rparr>]\<rparr>\<rparr>)
   \<and> xQueueReceive \<lparr>uxLength = 10, waiting = replicate 10 \<lparr>type = CMD_WATER, data = [], timestamp = 7\<rparr>\<rparr>
     = Some (\<lparr>type = CMD_WATER, data = [], timestamp = 7\<rparr>,
             \<lparr>uxLength = 10, waiting = replicate 9 \<lparr>type = CMD_WATER, data = [], timestamp = 7\<rparr>\<rparr>)"
proof -
  have s: "strncpy_str ''now'' 63 = ''now''"
    by (simp add: strncpy_str_def NUL_def)
  have n: "replicate 10 \<lparr>type = CMD_WATER, data = [], timestamp = 7\<rparr> \<noteq> []"
    "hd (replicate 10 \<lparr>type = CMD_WATER, data = [], timestamp = 7\<rparr>) = \<lparr>type = CMD_WATER, data = [], timestamp = 7\<rparr>"
    "tl (replicate 10 \<lparr>type = CMD_WATER, data = [], timestamp = 7\<rparr>) = replicate 9 \<lparr>type = CMD_WATER, data = [], timestamp = 7\<rparr>"
    by (simp_all add: eval_nat_numeral)
  from command_queue_capacity [OF full_queue_run_eval, of CMD_WATER None 8]
       command_queue_capacity [OF empty_queue_run_eval, of CMD_GET_STATUS "Some ''now''" 8]
       full_queue_run_eval s n
  show ?thesis by simp
qed

subsection \<open>The empty locator\<close>

text \<open>
  C7, as stated, fails: \<^verbatim>\<open>ota_start_update\<close> accepts a configuration whose locator is
  empty; it returns \<^verbatim>\<open>ESP_OK\<close>, the state becomes Downloading, the attempt is counted and
  a task is created.
\<close>

theorem empty_locator_counterexample:
  "firmware_url zero_config = []
   \<and> fst (ota_start_update (Some zero_config) True ota_boot) = ESP_OK
   \<and> current_state (snd (ota_start_update (Some zero_config) True ota_boot)) = OTA_STATE_DOWNLOADING
   \<and> tasks_created (snd (ota_start_update (Some zero_config) True ota_boot)) = 1
   \<and> total_updates (ota_stats (snd (ota_start_update (Some zero_config) True ota_boot))) = 1"
  by (simp add: ota_eval)

text \<open>
  C7, amended. \<^verbatim>\<open>ota_start_update\<close> returns \<^verbatim>\<open>ESP_ERR_INVALID_ARG\<close> for a null
  configuration, changing nothing, and for no other; it does not look at the locator. The empty
  (or null) locator is refused by \<^verbatim>\<open>execute_ota_update_command\<close>, which leaves the engine
  as it was (no call of \<^verbatim>\<open>ota_start_update\<close>) and returns \<^verbatim>\<open>ESP_ERR_INVALID_ARG\<close>, or
  the error of \<^verbatim>\<open>send_mqtt_response\<close> when its notice could not be sent.
\<close>

theorem empty_locator:
  "ota_start_update None task_created m = (ESP_ERR_INVALID_ARG, m)
   \<and> fst (ota_start_update (Some cfg) task_created m) \<noteq> ESP_ERR_INVALID_ARG
   \<and> (strlen url = 0 \<longrightarrow>
        execute_ota_update_command lnk task_created v (Some url) m
          = (if send_mqtt_response lnk = ESP_OK then ESP_ERR_INVALID_ARG
             else send_mqtt_response lnk, m))
   \<and> execute_ota_update_command lnk task_created v None m
          = (if send_mqtt_response lnk = ESP_OK then ESP_ERR_INVALID_ARG
             else send_mqtt_response lnk, m)"
  by (simp add: ota_start_update_def execute_ota_update_command_def Let_def)

text \<open>Witness for C7: the empty locator with a publisher that works.\<close>

theorem empty_locator_witness:
  "strlen [] = 0
   \<and> execute_ota_update_command \<lparr>client_present = True, publish_msg_id = 3\<rparr> True version_1_0_0
        (Some []) ota_boot = (ESP_ERR_INVALID_ARG, ota_boot)"
proof -
  have h: "strlen [] = 0" by (simp add: strlen_def)
  have p: "send_mqtt_response \<lparr>client_present = True, publish_msg_id = 3\<rparr> = ESP_OK"
    by (simp add: send_mqtt_response_def)
  from empty_locator [of True ota_boot zero_config "[]" "\<lparr>client_present = True, publish_msg_id = 3\<rparr>"
      version_1_0_0] h p
  show ?thesis by simp
qed

subsection \<open>Updates over the transport\<close>

lemma transport_only_boot: "transport_only firmware_boot"
  by (simp add: transport_only_def firmware_boot_def dispatcher_boot_def ota_boot_def zero_statistics_def)

lemma execute_update_empty:
  "execute_ota_update_command lnk tc v (Some []) m
     = (if send_mqtt_response lnk = ESP_OK then ESP_ERR_INVALID_ARG else send_mqtt_response lnk, m)"
  by (simp add: execute_ota_update_command_def strlen_def)

lemma execute_cancel_idle:
  "current_state m = OTA_STATE_IDLE \<Longrightarrow> snd (execute_ota_cancel_command lnk m) = m"
  by (simp add: execute_ota_cancel_command_def ota_is_updating_def)

lemma execute_command_empty_payload:
  assumes "data c = []" "current_state (ota fw) = OTA_STATE_IDLE"
  shows "ota (snd (execute_command io c fw)) = ota fw"
  using assms execute_cancel_idle [of "ota fw" "link io"]
  by (cases "type c")
     (auto simp: execute_command_def execute_update_empty split: prod.splits)

lemma transport_only_handler:
  assumes "transport_only fw"
  shows "transport_only (command_handler_task io fw)"
proof (cases "command_queue (disp fw)")
  case (Queue q)
  show ?thesis
  proof (cases "waiting q")
    case Nil
    with Queue assms show ?thesis by (simp add: command_handler_task_def xQueueReceive_def)
  next
    case (Cons c cs)
    let ?fw = "fw\<lparr>disp := (disp fw)\<lparr>command_queue := Queue (q\<lparr>waiting := cs\<rparr>)\<rparr>\<rparr>"
    obtain r fw1 where e: "execute_command io c ?fw = (r, fw1)"
      by (cases "execute_command io c ?fw")
    from assms Queue Cons have c: "data c = []" "list_all (\<lambda>c. data c = []) cs"
      and o: "current_state (ota ?fw) = OTA_STATE_IDLE"
      by (simp_all add: transport_only_def)
    from execute_command_queue [of io c ?fw] e
    have q1: "command_queue (disp fw1) = Queue (q\<lparr>waiting := cs\<rparr>)" by simp
    from execute_command_empty_payload [OF c(1) o, of io] e
    have o1: "ota fw1 = ota fw" by simp
    from assms q1 o1 c(2) have "transport_only fw1"
      by (simp add: transport_only_def)
    then have "transport_only (fw1\<lparr>disp := (disp fw1)\<lparr>processed_count := p\<rparr>\<rparr>)"
         "transport_only (fw1\<lparr>disp := (disp fw1)\<lparr>error_count := p\<rparr>\<rparr>)" for p
      by (simp_all add: transport_only_def)
    with Queue Cons e assms show ?thesis
      by (simp add: command_handler_task_def xQueueReceive_def)
  qed
next
  case Queue_null
  with assms show ?thesis by (simp add: command_handler_task_def)
next
  case Queue_deleted
  with assms show ?thesis by (simp add: command_handler_task_def)
qed

lemma transport_enqueues_empty:
  assumes "mqtt_event_handler (MQTT_EVENT_DATA p n) now d = Inr d'"
  shows "d' = d \<or> (\<exists>q. command_queue d = Queue q \<and>
           d' = d\<lparr>command_queue := Queue (q\<lparr>waiting := waiting q @
                   [\<lparr>type = parse_command p n, data = [], timestamp = now\<rparr>]\<rparr>)\<rparr>)"
  using assms
  by (auto simp: enqueue_command_def xQueueSend_def Let_def
        split: queue_handle.splits sum.splits if_splits prod.splits)

lemma transport_only_step: "transport_only fw \<Longrightarrow> transport_only (firmware_of (firmware_step e fw))"
proof (cases e)
  case (Init_command_handler a b c)
  assume "transport_only fw"
  with Init_command_handler show ?thesis
    by (simp add: transport_only_def command_handler_init_def xQueueCreate_def)
next
  case (Init_ota_update v)
  assume "transport_only fw"
  with Init_ota_update show ?thesis
    by (simp add: transport_only_def ota_update_init_def zero_statistics_def)
next
  case (Transport ev now)
  assume t: "transport_only fw"
  show ?thesis
  proof (cases "mqtt_event_handler ev now (disp fw)")
    case (Inl ub)
    with Transport t show ?thesis by simp
  next
    case (Inr d')
    show ?thesis
    proof (cases ev)
      case (MQTT_EVENT_DATA p n)
      with transport_enqueues_empty [of p n now "disp fw" d'] Inr t Transport show ?thesis
        by (auto simp: transport_only_def)
    qed (use Inr t Transport in \<open>auto simp: transport_only_def\<close>)
  qed
next
  case (Handler_pass io)
  assume "transport_only fw"
  with Handler_pass transport_only_handler [of fw io] show ?thesis by simp
next
  case (Download env)
  assume "transport_only fw"
  with Download show ?thesis by (simp add: transport_only_def)
qed

lemma transport_only_run: "transport_only (firmware_of (run_firmware es firmware_boot))"
  using transport_only_boot transport_only_step by (rule run_firmware_invariant)

text \<open>
  C10, as stated, fails in the result of the rejection: when publishing the notice fails,
  the update command received over the bus is rejected with \<^verbatim>\<open>ESP_ERR_INVALID_RESPONSE\<close>,
  not with \<^verbatim>\<open>ESP_ERR_INVALID_ARG\<close>.
\<close>

theorem transport_starts_no_update_counterexample:
  "command_queue (disp (firmware_of (run_firmware
       [Init_command_handler True True True, ota_update_message] firmware_boot)))
     = Queue \<lparr>uxLength = 10, waiting = [\<lparr>type = CMD_OTA_UPDATE, data = [], timestamp = 7\<rparr>]\<rparr>
   \<and> fst (execute_command failing_publisher \<lparr>type = CMD_OTA_UPDATE, data = [], timestamp = 7\<rparr>
            (firmware_of (run_firmware
               [Init_command_handler True True True, ota_update_message] firmware_boot)))
       = ESP_ERR_INVALID_RESPONSE
   \<and> fst (execute_command failing_publisher \<lparr>type = CMD_OTA_UPDATE, data = [], timestamp = 7\<rparr>
            (firmware_of (run_firmware
               [Init_command_handler True True True, ota_update_message] firmware_boot)))
       \<noteq> ESP_ERR_INVALID_ARG"
  by (simp add: dispatcher_eval parse_eval)

text \<open>
  C10, amended. In every state the firmware reaches, every waiting command has an empty
  payload and the engine has never been started: the state is Idle, no task was created and no
  attempt was counted. The transport either leaves the dispatcher as it is or appends a
  command with empty payload, and \<^verbatim>\<open>execute_ota_update_command\<close> on the empty payload
  leaves the engine as it was and returns an error: \<^verbatim>\<open>ESP_ERR_INVALID_ARG\<close>, or
  \<^verbatim>\<open>ESP_ERR_INVALID_RESPONSE\<close> when publishing its notice fails.
\<close>

theorem transport_starts_no_update:
  "(command_queue (disp (firmware_of (run_firmware es firmware_boot))) = Queue q
      \<longrightarrow> list_all (\<lambda>c. data c = []) (waiting q))
   \<and> current_state (ota (firmware_of (run_firmware es firmware_boot))) = OTA_STATE_IDLE
   \<and> tasks_created (ota (firmware_of (run_firmware es firmware_boot))) = 0
   \<and> total_updates (ota_stats (ota (firmware_of (run_firmware es firmware_boot)))) = 0
   \<and> (mqtt_event_handler (MQTT_EVENT_DATA p n) now d = Inr d' \<longrightarrow>
        d' = d \<or> (\<exists>q'. command_queue d = Queue q' \<and>
           d' = d\<lparr>command_queue := Queue (q'\<lparr>waiting := waiting q' @
                   [\<lparr>type = parse_command p n, data = [], timestamp = now\<rparr>]\<rparr>)\<rparr>))
   \<and> execute_ota_update_command lnk task_created v (Some []) m
        = (if send_mqtt_response lnk = ESP_OK then ESP_ERR_INVALID_ARG
           else send_mqtt_response lnk, m)
   \<and> fst (execute_ota_update_command lnk task_created v (Some []) m) \<noteq> ESP_OK"
proof -
  from transport_only_run [of es]
  have a: "command_queue (disp (firmware_of (run_firmware es firmware_boot))) = Queue q
      \<longrightarrow> list_all (\<lambda>c. data c = []) (waiting q)"
    and b: "current_state (ota (firmware_of (run_firmware es firmware_boot))) = OTA_STATE_IDLE"
      "tasks_created (ota (firmware_of (run_firmware es firmware_boot))) = 0"
      "total_updates (ota_stats (ota (firmware_of (run_firmware es firmware_boot)))) = 0"
    by (auto simp: transport_only_def)
  have c: "mqtt_event_handler (MQTT_EVENT_DATA p n) now d = Inr d' \<longrightarrow>
        d' = d \<or> (\<exists>q'. command_queue d = Queue q' \<and>
           d' = d\<lparr>command_queue := Queue (q'\<lparr>waiting := waiting q' @
                   [\<lparr>type = parse_command p n, data = [], timestamp = now\<rparr>]\<rparr>)\<rparr>)"
    using transport_enqueues_empty [of p n now d d'] by blast
  have e: "fst (execute_ota_update_command lnk task_created v (Some []) m) \<noteq> ESP_OK"
    by (simp add: execute_update_empty send_mqtt_response_def)
  from a b c e execute_update_empty [of lnk task_created v m] show ?thesis by blast
qed

text \<open>
  Witness for C10: the update command is received and then executed by the worker with a
  publisher that fails.
\<close>

theorem transport_starts_no_update_witness:
  "command_queue (disp (firmware_of (run_firmware
       [Init_command_handler True True True, ota_update_message] firmware_boot)))
     = Queue \<lparr>uxLength = 10, waiting = [\<lparr>type = CMD_OTA_UPDATE, data = [], timestamp = 7\<rparr>]\<rparr>
   \<and> mqtt_event_handler (MQTT_EVENT_DATA (Some ''OTA_UPDATE'') 10) 7
        (dispatcher_boot\<lparr>command_queue := Queue \<lparr>uxLength = 10, waiting = []\<rparr>\<rparr>)
     = Inr (dispatcher_boot\<lparr>command_queue := Queue \<lparr>uxLength = 10,
          waiting = [\<lparr>type = CMD_OTA_UPDATE, data = [], timestamp = 7\<rparr>]\<rparr>\<rparr>)
   \<and> current_state (ota (firmware_of (run_firmware
       [Init_command_handler True True True, ota_update_message, Handler_pass failing_publisher]
       firmware_boot))) = OTA_STATE_IDLE
   \<and> tasks_created (ota (firmware_of (run_firmware
       [Init_command_handler True True True, ota_update_message, Handler_pass failing_publisher]
       firmware_boot))) = 0"
proof -
  have q: "command_queue (disp (firmware_of (run_firmware
       [Init_command_handler True True True, ota_update_message] firmware_boot)))
     = Queue \<lparr>uxLength = 10, waiting = [\<lparr>type = CMD_OTA_UPDATE, data = [], timestamp = 7\<rparr>]\<rparr>"
    by (simp add: dispatcher_eval parse_eval)
  have h: "mqtt_event_handler (MQTT_EVENT_DATA (Some ''OTA_UPDATE'') 10) 7
        (dispatcher_boot\<lparr>command_queue := Queue \<lparr>uxLength = 10, waiting = []\<rparr>\<rparr>)
     = Inr (dispatcher_boot\<lparr>command_queue := Queue \<lparr>uxLength = 10,
          waiting = [\<lparr>type = CMD_OTA_UPDATE, data = [], timestamp = 7\<rparr>]\<rparr>\<rparr>)"
    by (simp add: dispatcher_eval parse_eval)
  from transport_starts_no_update [where
         es = "[Init_command_handler True True True, ota_update_message]"
         and q = "\<lparr>uxLength = 10, waiting = [\<lparr>type = CMD_OTA_UPDATE, data = [], timestamp = 7\<rparr>]\<rparr>"
         and p = "Some ''OTA_UPDATE''" and n = 10 and now = 7
         and d = "dispatcher_boot\<lparr>command_queue := Queue \<lparr>uxLength = 10, waiting = []\<rparr>\<rparr>"
         and d' = "dispatcher_boot\<lparr>command_queue := Queue \<lparr>uxLength = 10,
            waiting = [\<lparr>type = CMD_OTA_UPDATE, data = [], timestamp = 7\<rparr>]\<rparr>\<rparr>"]
     q h
  have "list_all (\<lambda>c. data c = []) [\<lparr>type = CMD_OTA_UPDATE, data = [], timestamp = 7\<rparr>]"
    by simp
  with transport_starts_no_update [of
       "[Init_command_handler True True True, ota_update_message, Handler_pass failing_publisher]"]
     q h
  show ?thesis by simp
qed

end
